theory Spec2Isabelle
  imports Complex_Main "HOL-Library.Char_ord" "HOL-Library.List_Lexorder"
begin

section \<open>Fraud detector: scoring pipeline and training orchestrator\<close>

text \<open>
  Shallow embedding of \<^verbatim>\<open>ml-service/app/services/model_service.py\<close>,
  \<^verbatim>\<open>ml-service/app/services/feature_service.py\<close> and
  \<^verbatim>\<open>ml-training-service/app/services/training_service.py\<close>.

  Conventions. A Python \<^verbatim>\<open>float\<close> is the \<^typ>\<open>real\<close> number it denotes. The rounding of
  an arithmetic result to the last bit of a double is left out; what is modelled of
  doubles is where they make the code take another path: the conversion of an integer
  that is too large, and a quotient so small that it is zero as a double. Infinities
  and NaN are not values of the model. A Python \<^verbatim>\<open>str\<close> is a
  \<^typ>\<open>string\<close>, compared lexicographically character by character as Python does. A
  \<^verbatim>\<open>dict\<close> is an association list read with \<^const>\<open>map_of\<close>. Every \<^verbatim>\<open>raise\<close> is a value
  \<open>Inl e\<close> of a sum type. Wall-clock measurements (\<^verbatim>\<open>time.time()\<close>) are left out.
\<close>

subsection \<open>Python dictionaries\<close>

text \<open>
  Python dictionaries keep insertion order: assigning to a key that is present
  replaces its value in place, a new key goes to the end. \<^verbatim>\<open>{**a, **b}\<close> assigns the
  items of \<open>b\<close> in order to a copy of \<open>a\<close>; \<^verbatim>\<open>d.pop(k, default)\<close> removes \<open>k\<close> and
  returns its value or the default.
\<close>

fun dict_set :: "'k \<Rightarrow> 'v \<Rightarrow> ('k \<times> 'v) list \<Rightarrow> ('k \<times> 'v) list" where
  "dict_set k v [] = [(k, v)]"
| "dict_set k v ((k', v') # d) = (if k' = k then (k, v) # d else (k', v') # dict_set k v d)"

definition dict_merge :: "('k \<times> 'v) list \<Rightarrow> ('k \<times> 'v) list \<Rightarrow> ('k \<times> 'v) list" where
  "dict_merge a b = foldl (\<lambda>d (k, v). dict_set k v d) a b"

definition dict_pop :: "'k \<Rightarrow> 'v \<Rightarrow> ('k \<times> 'v) list \<Rightarrow> 'v \<times> ('k \<times> 'v) list" where
  "dict_pop k dflt d =
    (case map_of d k of
       Some v \<Rightarrow> (v, filter (\<lambda>(k', _). k' \<noteq> k) d)
     | None \<Rightarrow> (dflt, d))"

subsection \<open>Scoring engine (\<^verbatim>\<open>model_service.py\<close>)\<close>

datatype RiskTier = LOW | MEDIUM | HIGH | UNKNOWN | ERROR

datatype error =
    NoModelsLoaded
  | ModelVersionNotFound string
  | ExpectedFifteenFeatures nat
  | ValueError
  | TypeError
  | OverflowError
  | ZeroDivisionError
  | FeaturePreprocessingFailed

text \<open>
  The registry holds the synthesized \<^verbatim>\<open>MockModel\<close> or a deserialized predictor. A
  deserialized predictor is opaque code of a library: it is represented by what
  \<^verbatim>\<open>predict\<close> reads from it: the probability it gives for a row (the positive-class
  entry of \<^verbatim>\<open>predict_proba\<close> when the predictor has that method, the scalar of
  \<^verbatim>\<open>predict\<close> otherwise) and its importance vector if it exposes one
  (\<^verbatim>\<open>feature_importances_\<close>, or \<^verbatim>\<open>abs(coef_[0])\<close>).
\<close>

datatype model =
    MockModel
  | Predictor (infer: "real list \<Rightarrow> real") (importances_of: "real list option")

record ModelService =
  models :: "(string \<times> model) list"
  prediction_count :: nat

definition feature_names :: "string list" where
  "feature_names =
    [''credit_score'', ''debt_to_income_ratio'', ''loan_to_value_ratio'',
     ''employment_months'', ''annual_income'', ''vehicle_age'',
     ''credit_history_years'', ''delinquencies_24m'', ''loan_amount'',
     ''vehicle_value'', ''credit_utilization'', ''recent_inquiries_6m'',
     ''address_months'', ''loan_term_months'', ''applicant_age'']"

definition default_model_version :: string where
  "default_model_version = ''v1.0.0''"

definition mock_feature_importances :: "real list" where
  "mock_feature_importances =
    [0.25, 0.20, 0.15, 0.10, 0.08, 0.06, 0.05, 0.04, 0.03, 0.02,
     0.01, 0.005, 0.003, 0.002, 0.001]"

text \<open>\<^verbatim>\<open>row[i] if len(row) > i else d\<close>\<close>

definition at_or :: "real list \<Rightarrow> nat \<Rightarrow> real \<Rightarrow> real" where
  "at_or row i d = (if length row > i then row ! i else d)"

text \<open>The body of the loop of \<^verbatim>\<open>MockModel.predict_proba\<close>, for one row.\<close>

definition mock_fraud_prob :: "real list \<Rightarrow> real" where
  "mock_fraud_prob row =
    (let credit_score = at_or row 0 650;
         debt_ratio = at_or row 1 30;
         ltv_ratio = at_or row 2 80;
         fraud_prob = 0.1;
         fraud_prob =
           (if credit_score < 600 then fraud_prob + 0.3
            else if credit_score < 650 then fraud_prob + 0.15
            else if credit_score < 700 then fraud_prob + 0.05
            else fraud_prob);
         fraud_prob =
           (if debt_ratio > 50 then fraud_prob + 0.25
            else if debt_ratio > 40 then fraud_prob + 0.1
            else fraud_prob);
         fraud_prob =
           (if ltv_ratio > 100 then fraud_prob + 0.2
            else if ltv_ratio > 90 then fraud_prob + 0.1
            else fraud_prob)
     in min fraud_prob 0.95)"

text \<open>\<^verbatim>\<open>predict_proba\<close> on a matrix: one pair \<open>[1 - p, p]\<close> per row.\<close>

definition predict_proba :: "real list list \<Rightarrow> real list list" where
  "predict_proba X = map (\<lambda>row. [1 - mock_fraud_prob row, mock_fraud_prob row]) X"

text \<open>
  \<^verbatim>\<open>_create_mock_model\<close> stores the rule-based scorer under the default version.
  \<^verbatim>\<open>load_models\<close>: the files found in the model directory are given with the version
  taken from the file name and the outcome of deserializing them (\<open>None\<close> when
  \<^verbatim>\<open>_load_model_file\<close> raises, which is logged and skipped). The mock model is
  created when there is no file, and when no model is in the registry after loading.
\<close>

definition create_mock_model :: "ModelService \<Rightarrow> ModelService" where
  "create_mock_model svc =
    svc\<lparr>models := dict_set default_model_version MockModel (models svc)\<rparr>"

definition load_model_file :: "ModelService \<Rightarrow> string \<times> model option \<Rightarrow> ModelService" where
  "load_model_file svc file =
    (case snd file of
       None \<Rightarrow> svc
     | Some m \<Rightarrow> svc\<lparr>models := dict_set (fst file) m (models svc)\<rparr>)"

definition load_models :: "ModelService \<Rightarrow> (string \<times> model option) list \<Rightarrow> ModelService" where
  "load_models svc model_files =
    (let svc = (if model_files = [] then create_mock_model svc
                else foldl load_model_file svc model_files)
     in if models svc = [] then create_mock_model svc else svc)"

definition get_latest_model_version :: "ModelService \<Rightarrow> error + string" where
  "get_latest_model_version svc =
    (if models svc = [] then Inl NoModelsLoaded
     else Inr (hd (rev (sort (map fst (models svc))))))"

definition calculate_confidence :: "real \<Rightarrow> real list \<Rightarrow> real" where
  "calculate_confidence fraud_probability features =
    (let prob_confidence = 1 - 2 * \<bar>fraud_probability - 0.5\<bar>;
         feature_quality = 1.0;
         credit_score = at_or features 0 650;
         feature_quality =
           (if credit_score < 300 \<or> credit_score > 850 then feature_quality * 0.8
            else feature_quality);
         annual_income = at_or features 4 50000;
         feature_quality =
           (if annual_income < 10000 \<or> annual_income > 500000 then feature_quality * 0.9
            else feature_quality);
         confidence = prob_confidence * 0.7 + feature_quality * 0.3
     in max 0.1 (min 0.99 confidence))"

definition get_risk_tier :: "real \<Rightarrow> RiskTier" where
  "get_risk_tier fraud_probability =
    (if fraud_probability < 0.3 then LOW
     else if fraud_probability < 0.7 then MEDIUM
     else HIGH)"

record FeatureImportance =
  feature_name :: string
  importance :: real
  fvalue :: real

text \<open>
  \<^verbatim>\<open>_get_feature_importance\<close>: the importance vector of the model (the fixed vector
  when it exposes none), divided by its sum when the sum is positive, zipped with the
  names and the input values, filtered at \<open>> 0.01\<close>, sorted by decreasing importance
  (stable) and cut to ten entries.
\<close>

definition model_importances :: "model \<Rightarrow> real list" where
  "model_importances m =
    (case m of
       MockModel \<Rightarrow> mock_feature_importances
     | Predictor _ imps \<Rightarrow>
         (case imps of Some v \<Rightarrow> v | None \<Rightarrow> mock_feature_importances))"

definition get_feature_importance :: "model \<Rightarrow> real list \<Rightarrow> FeatureImportance list" where
  "get_feature_importance m features =
    (let importances = model_importances m;
         importances =
           (if sum_list importances > 0
            then map (\<lambda>x. x / sum_list importances) importances
            else importances);
         feature_importance =
           map (\<lambda>(name, imp, v). \<lparr>feature_name = name, importance = imp, fvalue = v\<rparr>)
             (filter (\<lambda>(name, imp, v). imp > 0.01)
                (zip feature_names (zip importances features)))
     in take 10 (sort_key (\<lambda>x. - importance x) feature_importance))"

definition model_output :: "model \<Rightarrow> real list \<Rightarrow> real" where
  "model_output m features =
    (case m of
       MockModel \<Rightarrow> (predict_proba [features] ! 0) ! 1
     | Predictor f _ \<Rightarrow> f features)"

record prediction =
  fraud_probability :: real
  confidence_score :: real
  risk_tier :: RiskTier
  feature_importance :: "FeatureImportance list"
  model_version :: string

text \<open>
  \<^verbatim>\<open>ModelService.predict\<close>. The argument \<open>None\<close> or \<open>Some ''latest''\<close> asks for the
  latest version. The result is the prediction and the service with its counter
  incremented, or the error raised.
\<close>

definition predict ::
  "ModelService \<Rightarrow> real list \<Rightarrow> string option \<Rightarrow> error + (prediction \<times> ModelService)" where
  "predict svc features version =
    (case (if version = None \<or> version = Some ''latest''
           then get_latest_model_version svc
           else Inr (the version)) of
       Inl e \<Rightarrow> Inl e
     | Inr mv \<Rightarrow>
         (case map_of (models svc) mv of
            None \<Rightarrow> Inl (ModelVersionNotFound mv)
          | Some m \<Rightarrow>
              if length features \<noteq> 15 then Inl (ExpectedFifteenFeatures (length features))
              else
                (let p = model_output m features
                 in Inr (\<lparr>fraud_probability = p,
                           confidence_score = calculate_confidence p features,
                           risk_tier = get_risk_tier p,
                           feature_importance = get_feature_importance m features,
                           model_version = mv\<rparr>,
                         svc\<lparr>prediction_count := prediction_count svc + 1\<rparr>))))"

subsection \<open>Feature normalizer (\<^verbatim>\<open>feature_service.py\<close>)\<close>

text \<open>
  The raw input is an untyped nested mapping: the values a JSON document can hold.
\<close>

datatype pyval =
    PNone
  | PBool bool
  | PInt int
  | PFloat real
  | PStr string
  | PList "pyval list"
  | PDict "(string \<times> pyval) list"

text \<open>
  What the service takes from Python's library and from the clock: the parsers behind
  \<^verbatim>\<open>float(s)\<close> and \<^verbatim>\<open>int(s)\<close> on a string (\<open>None\<close> when they raise), the current year
  (\<^verbatim>\<open>datetime.now().year\<close>), today's date as (year, month, day), and the two date
  parsers, \<^verbatim>\<open>datetime.fromisoformat(s).date()\<close> and
  \<^verbatim>\<open>datetime.strptime(s, '%Y-%m-%d').date()\<close>.
\<close>

record pyenv =
  float_of_str :: "string \<Rightarrow> real option"
  int_of_str :: "string \<Rightarrow> int option"
  current_year :: int
  today :: "int \<times> int \<times> int"
  fromisoformat :: "string \<Rightarrow> (int \<times> int \<times> int) option"
  strptime_ymd :: "string \<Rightarrow> (int \<times> int \<times> int) option"

text \<open>
  \<^verbatim>\<open>float(n)\<close> of an integer raises \<^verbatim>\<open>OverflowError\<close> when \<open>n\<close> does not round to a
  finite double: the greatest double is \<open>2^1024 - 2^971\<close>, and an integer of magnitude
  \<open>2^1024 - 2^970\<close> or more rounds beyond it.
\<close>

definition py_float_of_int :: "int \<Rightarrow> error + real" where
  "py_float_of_int n =
    (if 2 ^ 1024 - 2 ^ 970 \<le> \<bar>n\<bar> then Inl OverflowError else Inr (real_of_int n))"

text \<open>
  The quotient of two doubles. Below the normal range, that is below \<open>2^-1022\<close> in
  magnitude, the doubles are the multiples of \<open>2^-1074\<close>, and the quotient is rounded
  to the nearest of them, to the even one on a tie: a quotient of magnitude at most
  \<open>2^-1075\<close> is \<open>0.0\<close>. In the normal range the rounding is relative, to the last of 53
  bits, and is left out. \<^verbatim>\<open>a / b\<close> raises \<^verbatim>\<open>ZeroDivisionError\<close> when \<open>b\<close> is zero.
\<close>

definition round_half_even :: "real \<Rightarrow> int" where
  "round_half_even y =
    (let f = \<lfloor>y\<rfloor>
     in if y - of_int f < 1 / 2 then f
        else if 1 / 2 < y - of_int f then f + 1
        else if even f then f else f + 1)"

definition fl_div :: "real \<Rightarrow> real \<Rightarrow> real" where
  "fl_div a b =
    (let q = a / b
     in if \<bar>q\<bar> < 1 / 2 ^ 1022 then of_int (round_half_even (q * 2 ^ 1074)) / 2 ^ 1074
        else q)"

definition py_truediv :: "real \<Rightarrow> real \<Rightarrow> error + real" where
  "py_truediv a b = (if b = 0 then Inl ZeroDivisionError else Inr (fl_div a b))"

text \<open>
  The double nearest to a real number, to the even one on a tie: with \<open>e\<close> the binary
  exponent of the number, at least \<open>-1022\<close>, the doubles around it are the multiples
  of \<open>2^(e - 52)\<close>. It is used where the code truncates a double to an integer, so
  that the last bit decides.
\<close>

definition pow2 :: "int \<Rightarrow> real" where
  "pow2 k = (if 0 \<le> k then 2 ^ nat k else 1 / 2 ^ nat (- k))"

definition double_round :: "real \<Rightarrow> real" where
  "double_round x =
    (if x = 0 then 0
     else (let e = max \<lfloor>log 2 \<bar>x\<bar>\<rfloor> (- 1022);
               u = pow2 (e - 52)
           in of_int (round_half_even (x / u)) * u))"

text \<open>\<^verbatim>\<open>float(value)\<close> and \<^verbatim>\<open>int(value)\<close>; \<^verbatim>\<open>int\<close> of a float truncates towards zero.\<close>

definition py_float :: "pyenv \<Rightarrow> pyval \<Rightarrow> error + real" where
  "py_float env v =
    (case v of
       PNone \<Rightarrow> Inl TypeError
     | PBool b \<Rightarrow> Inr (if b then 1 else 0)
     | PInt i \<Rightarrow> py_float_of_int i
     | PFloat r \<Rightarrow> Inr r
     | PStr s \<Rightarrow> (case float_of_str env s of Some r \<Rightarrow> Inr r | None \<Rightarrow> Inl ValueError)
     | PList _ \<Rightarrow> Inl TypeError
     | PDict _ \<Rightarrow> Inl TypeError)"

definition py_int :: "pyenv \<Rightarrow> pyval \<Rightarrow> error + int" where
  "py_int env v =
    (case v of
       PNone \<Rightarrow> Inl TypeError
     | PBool b \<Rightarrow> Inr (if b then 1 else 0)
     | PInt i \<Rightarrow> Inr i
     | PFloat r \<Rightarrow> Inr (if 0 \<le> r then \<lfloor>r\<rfloor> else \<lceil>r\<rceil>)
     | PStr s \<Rightarrow> (case int_of_str env s of Some i \<Rightarrow> Inr i | None \<Rightarrow> Inl ValueError)
     | PList _ \<Rightarrow> Inl TypeError
     | PDict _ \<Rightarrow> Inl TypeError)"

text \<open>
  \<^verbatim>\<open>_get_nested_value\<close>: follow the keys while the current value is a dictionary that
  has the key; \<^verbatim>\<open>None\<close> otherwise. A key stored with the value \<^verbatim>\<open>None\<close> also gives
  \<^verbatim>\<open>None\<close>.
\<close>

fun get_nested_value :: "pyval \<Rightarrow> string list \<Rightarrow> pyval" where
  "get_nested_value current [] = current"
| "get_nested_value current (key # path) =
     (case current of
        PDict d \<Rightarrow>
          (case map_of d key of
             Some v \<Rightarrow> get_nested_value v path
           | None \<Rightarrow> PNone)
      | _ \<Rightarrow> PNone)"

text \<open>
  The loop shared by the \<^verbatim>\<open>_extract_*\<close> methods: the first path whose value is not
  \<^verbatim>\<open>None\<close> decides, through \<^verbatim>\<open>float(value)\<close>; the default when no path resolves.
\<close>

fun extract_first :: "pyenv \<Rightarrow> pyval \<Rightarrow> string list list \<Rightarrow> real \<Rightarrow> error + real" where
  "extract_first env data [] dflt = Inr dflt"
| "extract_first env data (path # paths) dflt =
     (if get_nested_value data path \<noteq> PNone
      then py_float env (get_nested_value data path)
      else extract_first env data paths dflt)"

definition credit_score_paths :: "string list list" where
  "credit_score_paths =
    [[''credit_score''], [''applicant'', ''credit_score''],
     [''personal_info'', ''credit_score''], [''financial_info'', ''credit_score'']]"

definition employment_months_paths :: "string list list" where
  "employment_months_paths =
    [[''employment_months''], [''applicant'', ''employment_months''],
     [''financial_info'', ''employment_months''], [''personal_info'', ''employment_months'']]"

definition annual_income_paths :: "string list list" where
  "annual_income_paths =
    [[''annual_income''], [''applicant'', ''annual_income''],
     [''financial_info'', ''annual_income''], [''personal_info'', ''annual_income'']]"

definition vehicle_year_paths :: "string list list" where
  "vehicle_year_paths = [[''vehicle_year''], [''vehicle'', ''year''], [''vehicle_info'', ''year'']]"

definition credit_history_years_paths :: "string list list" where
  "credit_history_years_paths =
    [[''credit_history_years''], [''applicant'', ''credit_history_years''],
     [''financial_info'', ''credit_history_years'']]"

definition delinquencies_paths :: "string list list" where
  "delinquencies_paths =
    [[''delinquencies_24m''], [''applicant'', ''delinquencies_24m''],
     [''financial_info'', ''delinquencies_24m''], [''credit_info'', ''delinquencies_24m'']]"

definition loan_amount_paths :: "string list list" where
  "loan_amount_paths = [[''loan_amount''], [''loan'', ''amount''], [''loan_info'', ''amount'']]"

definition vehicle_value_paths :: "string list list" where
  "vehicle_value_paths =
    [[''vehicle_value''], [''vehicle'', ''value''], [''vehicle'', ''estimated_value''],
     [''vehicle_info'', ''value''], [''vehicle_info'', ''estimated_value'']]"

definition credit_utilization_paths :: "string list list" where
  "credit_utilization_paths =
    [[''credit_utilization''], [''applicant'', ''credit_utilization''],
     [''financial_info'', ''credit_utilization''], [''credit_info'', ''utilization'']]"

definition recent_inquiries_paths :: "string list list" where
  "recent_inquiries_paths =
    [[''recent_inquiries_6m''], [''applicant'', ''recent_inquiries_6m''],
     [''financial_info'', ''recent_inquiries_6m''], [''credit_info'', ''recent_inquiries_6m'']]"

definition address_months_paths :: "string list list" where
  "address_months_paths =
    [[''address_months''], [''applicant'', ''address_months''],
     [''personal_info'', ''address_months''], [''address'', ''months'']]"

definition loan_term_months_paths :: "string list list" where
  "loan_term_months_paths =
    [[''loan_term_months''], [''loan'', ''term_months''], [''loan_info'', ''term_months'']]"

definition age_paths :: "string list list" where
  "age_paths = [[''age''], [''applicant'', ''age''], [''personal_info'', ''age'']]"

definition date_of_birth_paths :: "string list list" where
  "date_of_birth_paths =
    [[''date_of_birth''], [''applicant'', ''date_of_birth''],
     [''personal_info'', ''date_of_birth'']]"

definition extract_credit_score :: "pyenv \<Rightarrow> pyval \<Rightarrow> error + real" where
  "extract_credit_score env data = extract_first env data credit_score_paths 650.0"

definition extract_employment_months :: "pyenv \<Rightarrow> pyval \<Rightarrow> error + real" where
  "extract_employment_months env data = extract_first env data employment_months_paths 24.0"

definition extract_annual_income :: "pyenv \<Rightarrow> pyval \<Rightarrow> error + real" where
  "extract_annual_income env data = extract_first env data annual_income_paths 50000.0"

definition extract_credit_history_years :: "pyenv \<Rightarrow> pyval \<Rightarrow> error + real" where
  "extract_credit_history_years env data =
    extract_first env data credit_history_years_paths 7.0"

definition extract_delinquencies :: "pyenv \<Rightarrow> pyval \<Rightarrow> error + real" where
  "extract_delinquencies env data = extract_first env data delinquencies_paths 1.0"

definition extract_loan_amount :: "pyenv \<Rightarrow> pyval \<Rightarrow> error + real" where
  "extract_loan_amount env data = extract_first env data loan_amount_paths 25000.0"

definition extract_vehicle_value :: "pyenv \<Rightarrow> pyval \<Rightarrow> error + real" where
  "extract_vehicle_value env data = extract_first env data vehicle_value_paths 30000.0"

definition extract_credit_utilization :: "pyenv \<Rightarrow> pyval \<Rightarrow> error + real" where
  "extract_credit_utilization env data = extract_first env data credit_utilization_paths 30.0"

definition extract_recent_inquiries :: "pyenv \<Rightarrow> pyval \<Rightarrow> error + real" where
  "extract_recent_inquiries env data = extract_first env data recent_inquiries_paths 1.0"

definition extract_address_months :: "pyenv \<Rightarrow> pyval \<Rightarrow> error + real" where
  "extract_address_months env data = extract_first env data address_months_paths 24.0"

definition extract_loan_term_months :: "pyenv \<Rightarrow> pyval \<Rightarrow> error + real" where
  "extract_loan_term_months env data = extract_first env data loan_term_months_paths 60.0"

text \<open>
  \<^verbatim>\<open>_calculate_debt_to_income_ratio\<close>. The \<^verbatim>\<open>try\<close> block turns every exception into
  the default 35.0: an exception of the three extractions, and the
  \<^verbatim>\<open>ZeroDivisionError\<close> of a division, which is raised when \<^verbatim>\<open>annual_income / 12\<close> is
  zero as a double. No path named \<^verbatim>\<open>debt_to_income_ratio\<close> is read.
\<close>

definition calculate_debt_to_income_ratio :: "pyenv \<Rightarrow> pyval \<Rightarrow> real" where
  "calculate_debt_to_income_ratio env data =
    (case extract_loan_amount env data of
       Inl _ \<Rightarrow> 35.0
     | Inr loan_amount \<Rightarrow>
    (case extract_loan_term_months env data of
       Inl _ \<Rightarrow> 35.0
     | Inr loan_term \<Rightarrow>
    (case extract_annual_income env data of
       Inl _ \<Rightarrow> 35.0
     | Inr annual_income \<Rightarrow>
         if annual_income \<le> 0 \<or> loan_term \<le> 0 then 35.0
         else
           (case py_truediv loan_amount loan_term of
              Inl _ \<Rightarrow> 35.0
            | Inr monthly_payment \<Rightarrow>
           (case py_truediv annual_income 12 of
              Inl _ \<Rightarrow> 35.0
            | Inr monthly_income \<Rightarrow>
           (case py_truediv monthly_payment monthly_income of
              Inl _ \<Rightarrow> 35.0
            | Inr q \<Rightarrow>
                (let ratio = q * 100
                 in min ratio 100.0)))))))"

definition calculate_loan_to_value_ratio :: "pyenv \<Rightarrow> pyval \<Rightarrow> real" where
  "calculate_loan_to_value_ratio env data =
    (case extract_loan_amount env data of
       Inl _ \<Rightarrow> 85.0
     | Inr loan_amount \<Rightarrow>
    (case extract_vehicle_value env data of
       Inl _ \<Rightarrow> 85.0
     | Inr vehicle_value \<Rightarrow>
         if vehicle_value \<le> 0 then 85.0
         else
           (case py_truediv loan_amount vehicle_value of
              Inl _ \<Rightarrow> 85.0
            | Inr q \<Rightarrow>
                (let ratio = q * 100
                 in min ratio 150.0))))"

text \<open>
  \<^verbatim>\<open>_calculate_vehicle_age\<close>: the first path with a value gives the year through
  \<^verbatim>\<open>int(value)\<close>; a year that is missing or zero gives the default, and so does any
  exception, that of \<^verbatim>\<open>float(age)\<close> on an age too large for a double among them.
\<close>

fun find_vehicle_year :: "pyenv \<Rightarrow> pyval \<Rightarrow> string list list \<Rightarrow> error + int option" where
  "find_vehicle_year env data [] = Inr None"
| "find_vehicle_year env data (path # paths) =
     (if get_nested_value data path \<noteq> PNone
      then (case py_int env (get_nested_value data path) of
              Inl e \<Rightarrow> Inl e
            | Inr y \<Rightarrow> Inr (Some y))
      else find_vehicle_year env data paths)"

definition calculate_vehicle_age :: "pyenv \<Rightarrow> pyval \<Rightarrow> real" where
  "calculate_vehicle_age env data =
    (case find_vehicle_year env data vehicle_year_paths of
       Inl _ \<Rightarrow> 5.0
     | Inr None \<Rightarrow> 5.0
     | Inr (Some vehicle_year) \<Rightarrow>
         if vehicle_year \<noteq> 0
         then (let age = current_year env - vehicle_year
               in case py_float_of_int age of
                    Inl _ \<Rightarrow> 5.0
                  | Inr a \<Rightarrow> max 0.0 a)
         else 5.0)"

text \<open>
  \<^verbatim>\<open>_calculate_applicant_age\<close>: a direct age first; then the date-of-birth paths,
  where only a string is parsed and a string that does not parse is skipped.
\<close>

definition py_replace_Z :: "string \<Rightarrow> string" where
  "py_replace_Z s = concat (map (\<lambda>c. if c = CHR ''Z'' then ''+00:00'' else [c]) s)"

definition parse_dob :: "pyenv \<Rightarrow> string \<Rightarrow> (int \<times> int \<times> int) option" where
  "parse_dob env dob =
    (if CHR ''T'' \<in> set dob then fromisoformat env (py_replace_Z dob)
     else strptime_ymd env dob)"

definition age_on :: "int \<times> int \<times> int \<Rightarrow> int \<times> int \<times> int \<Rightarrow> int" where
  "age_on tod dob_date =
    (case tod of (ty, tm, td) \<Rightarrow>
     case dob_date of (by, bm, bd) \<Rightarrow>
       ty - by - (if tm < bm \<or> (tm = bm \<and> td < bd) then 1 else 0))"

fun age_from_dob :: "pyenv \<Rightarrow> pyval \<Rightarrow> string list list \<Rightarrow> real" where
  "age_from_dob env data [] = 35.0"
| "age_from_dob env data (path # paths) =
     (case get_nested_value data path of
        PStr dob \<Rightarrow>
          (case parse_dob env dob of
             Some dob_date \<Rightarrow> real_of_int (age_on (today env) dob_date)
           | None \<Rightarrow> age_from_dob env data paths)
      | _ \<Rightarrow> age_from_dob env data paths)"

fun direct_age :: "pyenv \<Rightarrow> pyval \<Rightarrow> string list list \<Rightarrow> error + real option" where
  "direct_age env data [] = Inr None"
| "direct_age env data (path # paths) =
     (if get_nested_value data path \<noteq> PNone
      then (case py_float env (get_nested_value data path) of
              Inl e \<Rightarrow> Inl e
            | Inr a \<Rightarrow> Inr (Some a))
      else direct_age env data paths)"

definition calculate_applicant_age :: "pyenv \<Rightarrow> pyval \<Rightarrow> real" where
  "calculate_applicant_age env data =
    (case direct_age env data age_paths of
       Inl _ \<Rightarrow> 35.0
     | Inr (Some a) \<Rightarrow> a
     | Inr None \<Rightarrow> age_from_dob env data date_of_birth_paths)"

definition feature_bounds :: "(string \<times> real \<times> real) list" where
  "feature_bounds =
    [(''credit_score'', (300, 850)),
     (''debt_to_income_ratio'', (0, 100)),
     (''loan_to_value_ratio'', (0, 150)),
     (''employment_months'', (0, 600)),
     (''annual_income'', (0, 1000000)),
     (''vehicle_age'', (0, 50)),
     (''credit_history_years'', (0, 50)),
     (''delinquencies_24m'', (0, 20)),
     (''loan_amount'', (1000, 200000)),
     (''vehicle_value'', (1000, 500000)),
     (''credit_utilization'', (0, 100)),
     (''recent_inquiries_6m'', (0, 20)),
     (''address_months'', (0, 600)),
     (''loan_term_months'', (12, 120)),
     (''applicant_age'', (18, 100))]"

definition normalize_feature :: "string \<Rightarrow> real \<Rightarrow> real" where
  "normalize_feature name v =
    (case map_of feature_bounds name of
       Some (min_val, max_val) \<Rightarrow> max min_val (min max_val v)
     | None \<Rightarrow> v)"

text \<open>Sequencing of steps that may raise.\<close>

definition and_then :: "error + 'a \<Rightarrow> ('a \<Rightarrow> error + 'b) \<Rightarrow> error + 'b" where
  "and_then r f = (case r of Inl e \<Rightarrow> Inl e | Inr x \<Rightarrow> f x)"

text \<open>
  The body of the \<^verbatim>\<open>try\<close> block of \<^verbatim>\<open>preprocess_features\<close>: the dictionary
  \<^verbatim>\<open>features\<close> in the order it is filled.
\<close>

definition compute_features :: "pyenv \<Rightarrow> pyval \<Rightarrow> error + (string \<times> real) list" where
  "compute_features env raw_features =
    and_then (extract_credit_score env raw_features) (\<lambda>credit_score.
    and_then (extract_employment_months env raw_features) (\<lambda>employment_months.
    and_then (extract_annual_income env raw_features) (\<lambda>annual_income.
    and_then (extract_credit_history_years env raw_features) (\<lambda>credit_history_years.
    and_then (extract_delinquencies env raw_features) (\<lambda>delinquencies_24m.
    and_then (extract_loan_amount env raw_features) (\<lambda>loan_amount.
    and_then (extract_vehicle_value env raw_features) (\<lambda>vehicle_value.
    and_then (extract_credit_utilization env raw_features) (\<lambda>credit_utilization.
    and_then (extract_recent_inquiries env raw_features) (\<lambda>recent_inquiries_6m.
    and_then (extract_address_months env raw_features) (\<lambda>address_months.
    and_then (extract_loan_term_months env raw_features) (\<lambda>loan_term_months.
      Inr [(''credit_score'', credit_score),
           (''debt_to_income_ratio'', calculate_debt_to_income_ratio env raw_features),
           (''loan_to_value_ratio'', calculate_loan_to_value_ratio env raw_features),
           (''employment_months'', employment_months),
           (''annual_income'', annual_income),
           (''vehicle_age'', calculate_vehicle_age env raw_features),
           (''credit_history_years'', credit_history_years),
           (''delinquencies_24m'', delinquencies_24m),
           (''loan_amount'', loan_amount),
           (''vehicle_value'', vehicle_value),
           (''credit_utilization'', credit_utilization),
           (''recent_inquiries_6m'', recent_inquiries_6m),
           (''address_months'', address_months),
           (''loan_term_months'', loan_term_months),
           (''applicant_age'', calculate_applicant_age env raw_features)])))))))))))"

text \<open>
  \<^verbatim>\<open>preprocess_features\<close> (the spec's \<open>normalize\<close>): every exception of the body is
  raised again as one \<^verbatim>\<open>ValueError\<close>; otherwise each name of \<open>feature_names\<close>, in
  order, is looked up (\<^verbatim>\<open>features.get(name, 0.0)\<close>) and clamped.
\<close>

definition preprocess_features :: "pyenv \<Rightarrow> pyval \<Rightarrow> error + real list" where
  "preprocess_features env raw_features =
    (case compute_features env raw_features of
       Inl _ \<Rightarrow> Inl FeaturePreprocessingFailed
     | Inr features \<Rightarrow>
         Inr (map (\<lambda>name.
                (let v = (case map_of features name of Some x \<Rightarrow> x | None \<Rightarrow> 0.0)
                 in normalize_feature name v))
              feature_names))"

text \<open>
  \<^verbatim>\<open>validate_feature_vector\<close>: fifteen values, each inside the bounds of its feature.
  The tests for NaN and infinity hold of every real number.
\<close>

definition validate_feature_vector :: "real list \<Rightarrow> bool" where
  "validate_feature_vector features =
    (if length features \<noteq> 15 then False
     else list_all
            (\<lambda>(name, v).
               (case map_of feature_bounds name of
                  Some (min_val, max_val) \<Rightarrow> \<not> (v < min_val \<or> v > max_val)
                | None \<Rightarrow> True))
            (zip feature_names features))"

subsection \<open>Training orchestrator (\<^verbatim>\<open>training_service.py\<close>)\<close>

text \<open>
  The persistence layer is not part of the repository's sources; the service talks to
  it through the SQL statements it sends. A table is the list of its rows, and each
  statement is modelled by what SQL says it does: an \<^verbatim>\<open>UPDATE ... WHERE c\<close> rewrites
  exactly the rows that satisfy \<open>c\<close> and reports their number (\<^verbatim>\<open>"UPDATE n"\<close>).
  Timestamps (\<^verbatim>\<open>NOW()\<close>) are a parameter where a row stores one and are left out
  otherwise.
\<close>

type_synonym metrics = "(string \<times> real) list"

record TrainingJob =
  job_id :: string
  status :: string
  status_message :: "string option"
  progress :: int
  metrics :: "metrics option"
  model_path :: "string option"

record ModelRegistryEntry =
  model_id :: string
  entry_status :: string
  is_production :: bool
  deployed_at :: "nat option"
  deployment_config :: "(string \<times> string) list option"

record TrainingService =
  training_jobs :: "TrainingJob list"
  model_registry :: "ModelRegistryEntry list"
  running_jobs :: "string list"

text \<open>The tag \<^verbatim>\<open>"UPDATE n"\<close> that \<^verbatim>\<open>conn.execute\<close> returns, as the number \<open>n\<close>.\<close>

definition rows_matched :: "('a \<Rightarrow> bool) \<Rightarrow> 'a list \<Rightarrow> nat" where
  "rows_matched c rows = length (filter c rows)"

definition sql_update :: "('a \<Rightarrow> bool) \<Rightarrow> ('a \<Rightarrow> 'a) \<Rightarrow> 'a list \<Rightarrow> 'a list" where
  "sql_update c f rows = map (\<lambda>r. if c r then f r else r) rows"

text \<open>
  \<^verbatim>\<open>_update_job_status\<close>: \<^verbatim>\<open>SET status = $1, status_message = $2, metrics = $3,
  model_path = $4 WHERE job_id = $5\<close>. All four columns are written, also when the
  caller leaves \<^verbatim>\<open>metrics\<close> and \<^verbatim>\<open>model_path\<close> at \<^verbatim>\<open>None\<close>.
\<close>

definition update_job_status ::
  "TrainingService \<Rightarrow> string \<Rightarrow> string \<Rightarrow> string option \<Rightarrow> metrics option \<Rightarrow> string option
     \<Rightarrow> TrainingService" where
  "update_job_status svc jid st message mtr path =
    svc\<lparr>training_jobs :=
      sql_update (\<lambda>j. job_id j = jid)
        (\<lambda>j. j\<lparr>status := st, status_message := message, metrics := mtr, model_path := path\<rparr>)
        (training_jobs svc)\<rparr>"

text \<open>\<^verbatim>\<open>_update_job_progress\<close>: \<^verbatim>\<open>SET progress = $1, status_message = $2 WHERE job_id = $3\<close>.\<close>

definition update_job_progress ::
  "TrainingService \<Rightarrow> string \<Rightarrow> int \<Rightarrow> string option \<Rightarrow> TrainingService" where
  "update_job_progress svc jid prog message =
    svc\<lparr>training_jobs :=
      sql_update (\<lambda>j. job_id j = jid)
        (\<lambda>j. j\<lparr>progress := prog, status_message := message\<rparr>)
        (training_jobs svc)\<rparr>"

text \<open>
  \<^verbatim>\<open>cancel_training_job\<close>: the guarded update, then the clean-up of
  \<^verbatim>\<open>running_jobs\<close>, then \<^verbatim>\<open>result != "UPDATE 0"\<close>.
\<close>

definition cancellable :: "string \<Rightarrow> TrainingJob \<Rightarrow> bool" where
  "cancellable jid j = (job_id j = jid \<and> (status j = ''queued'' \<or> status j = ''running''))"

definition cancel_training_job :: "TrainingService \<Rightarrow> string \<Rightarrow> bool \<times> TrainingService" where
  "cancel_training_job svc jid =
    (let result = rows_matched (cancellable jid) (training_jobs svc);
         svc = svc\<lparr>training_jobs :=
                 sql_update (cancellable jid)
                   (\<lambda>j. j\<lparr>status := ''cancelled'',
                          status_message := Some ''Cancelled by user''\<rparr>)
                   (training_jobs svc)\<rparr>;
         svc = svc\<lparr>running_jobs := filter (\<lambda>k. k \<noteq> jid) (running_jobs svc)\<rparr>
     in (result \<noteq> 0, svc))"

text \<open>
  \<^verbatim>\<open>deploy_model\<close>: the unconditional \<^verbatim>\<open>UPDATE model_registry SET is_production = FALSE\<close>,
  then the update of the rows with the given \<^verbatim>\<open>model_id\<close>, then
  \<^verbatim>\<open>result != "UPDATE 0"\<close> for the second statement.
\<close>

definition deploy_model ::
  "TrainingService \<Rightarrow> string \<Rightarrow> (string \<times> string) list \<Rightarrow> nat \<Rightarrow> bool \<times> TrainingService" where
  "deploy_model svc mid cfg now =
    (let registry = sql_update (\<lambda>e. True) (\<lambda>e. e\<lparr>is_production := False\<rparr>)
                      (model_registry svc);
         result = rows_matched (\<lambda>e. model_id e = mid) registry;
         registry = sql_update (\<lambda>e. model_id e = mid)
                      (\<lambda>e. e\<lparr>is_production := True, deployed_at := Some now,
                             deployment_config := Some cfg, entry_status := ''deployed''\<rparr>)
                      registry
     in (result \<noteq> 0, svc\<lparr>model_registry := registry\<rparr>))"

text \<open>
  \<^verbatim>\<open>run_training_job\<close>. What the task does to the job table is the sequence of its
  writes; the computations between them (loading, splitting, training, evaluation)
  are library code and enter only through their results: the iterations at which the
  booster calls the progress callback, the metrics and the path of the saved model and
  the fresh id of its registry entry, or the stage at which an exception is raised.
  Every \<^verbatim>\<open>await\<close> is a point where another coroutine, such as a cancel request,
  may run.
\<close>

datatype db_write =
    StatusWrite string "string option" "metrics option" "string option"
  | ProgressWrite int "string option"

fun apply_write :: "string \<Rightarrow> TrainingService \<Rightarrow> db_write \<Rightarrow> TrainingService" where
  "apply_write jid svc (StatusWrite st message mtr path) =
     update_job_status svc jid st message mtr path"
| "apply_write jid svc (ProgressWrite prog message) =
     update_job_progress svc jid prog message"

datatype stage =
    Loading | Preparing | Splitting | Training | Evaluating | CrossValidating | Saving
  | Registering

datatype run_result = Succeeds metrics string string | Raises stage string metrics string

text \<open>
  The callback of \<^verbatim>\<open>_create_progress_callback\<close>: every tenth iteration it schedules a
  progress write of \<^verbatim>\<open>30 + int((iteration / total_rounds) * 50)\<close>. The quotient of the
  two integers is a double, its product with 50 is a double, and \<^verbatim>\<open>int\<close> truncates it;
  the booster calls the callback only when \<open>total_rounds\<close> is positive. The message,
  which spells out the two numbers, is cut to its fixed beginning.
\<close>

definition progress_callback :: "nat \<Rightarrow> nat \<Rightarrow> db_write list" where
  "progress_callback total_rounds iteration =
    (if iteration mod 10 = 0
     then [ProgressWrite
             (30 + \<lfloor>double_round (double_round (real iteration / real total_rounds) * 50)\<rfloor>)
             (Some ''Training iteration'')]
     else [])"

text \<open>
  The callback does not write by itself: it schedules a task for the write
  (\<^verbatim>\<open>asyncio.create_task\<close>), and the booster runs without yielding. The scheduled writes
  are first taken up when the run task next waits, which is in its next write: the
  write of 80 after a training that returns, the write of \<open>failed\<close> after a training
  that raises. They are placed directly after that write, in the order in which they
  were scheduled; how they fall between the later writes of the run task is up to the
  database.
\<close>

definition callback_writes :: "nat \<Rightarrow> nat list \<Rightarrow> db_write list" where
  "callback_writes total_rounds iterations =
    concat (map (progress_callback total_rounds) iterations)"

definition writes_before :: "nat \<Rightarrow> nat list \<Rightarrow> stage \<Rightarrow> db_write list" where
  "writes_before total_rounds iterations stg =
    (let w0 = [StatusWrite ''running'' (Some ''Initializing training...'') None None];
         w1 = w0 @ [ProgressWrite 10 (Some ''Preparing training data...'')];
         w2 = w1 @ [ProgressWrite 20 (Some ''Splitting data...'')];
         w3 = w2 @ [ProgressWrite 30 (Some ''Training model...'')];
         w4 = w3 @ [ProgressWrite 80 (Some ''Evaluating model...'')]
                 @ callback_writes total_rounds iterations;
         w5 = w4 @ [ProgressWrite 90 (Some ''Running cross-validation...'')];
         w6 = w5 @ [ProgressWrite 95 (Some ''Saving model...'')]
     in case stg of
          Loading \<Rightarrow> w0 | Preparing \<Rightarrow> w1 | Splitting \<Rightarrow> w2 | Training \<Rightarrow> w3
        | Evaluating \<Rightarrow> w4 | CrossValidating \<Rightarrow> w5 | Saving \<Rightarrow> w6 | Registering \<Rightarrow> w6)"

definition completed_write :: "metrics \<Rightarrow> string \<Rightarrow> db_write" where
  "completed_write final_metrics path =
    StatusWrite ''completed'' (Some ''Training completed successfully'')
      (Some final_metrics) (Some path)"

definition failed_write :: "string \<Rightarrow> db_write" where
  "failed_write e = StatusWrite ''failed'' (Some (''Training failed: '' @ e)) None None"

definition run_writes :: "nat \<Rightarrow> nat list \<Rightarrow> run_result \<Rightarrow> db_write list" where
  "run_writes total_rounds iterations res =
    (case res of
       Succeeds final_metrics path mid \<Rightarrow>
         writes_before total_rounds iterations Saving @ [completed_write final_metrics path]
     | Raises stg e final_metrics path \<Rightarrow>
         writes_before total_rounds iterations stg
         @ (if stg = Registering then [completed_write final_metrics path] else [])
         @ [failed_write e]
         @ (if stg = Training then callback_writes total_rounds iterations else []))"

text \<open>
  \<^verbatim>\<open>_create_model_registry_entry\<close>, which follows the write of \<open>completed\<close>.
  Modelled from the spec: the schema of \<^verbatim>\<open>model_registry\<close>, which decides the columns
  that the \<^verbatim>\<open>INSERT\<close> leaves out, is not in the sources; a new entry has the status
  \<open>ready\<close> and is not production-deployed.
\<close>

definition create_model_registry_entry :: "TrainingService \<Rightarrow> string \<Rightarrow> TrainingService" where
  "create_model_registry_entry svc mid =
    svc\<lparr>model_registry := model_registry svc
          @ [\<lparr>model_id = mid, entry_status = ''ready'', is_production = False,
              deployed_at = None, deployment_config = None\<rparr>]\<rparr>"

definition register_result :: "run_result \<Rightarrow> TrainingService \<Rightarrow> TrainingService" where
  "register_result res svc =
    (case res of
       Succeeds final_metrics path mid \<Rightarrow> create_model_registry_entry svc mid
     | Raises stg e final_metrics path \<Rightarrow> svc)"

text \<open>
  The task run to its end with nothing in between, and the task with a cancel request
  served after its first \<open>k\<close> writes. The \<^verbatim>\<open>finally\<close> block removes the job from
  \<^verbatim>\<open>running_jobs\<close>.
\<close>

definition finish_run :: "TrainingService \<Rightarrow> string \<Rightarrow> TrainingService" where
  "finish_run svc jid = svc\<lparr>running_jobs := filter (\<lambda>k. k \<noteq> jid) (running_jobs svc)\<rparr>"

definition run_training_job ::
  "TrainingService \<Rightarrow> string \<Rightarrow> nat \<Rightarrow> nat list \<Rightarrow> run_result \<Rightarrow> TrainingService" where
  "run_training_job svc jid total_rounds iterations res =
    finish_run
      (register_result res
         (foldl (apply_write jid) svc (run_writes total_rounds iterations res))) jid"

definition run_with_cancel_after ::
  "nat \<Rightarrow> TrainingService \<Rightarrow> string \<Rightarrow> nat \<Rightarrow> nat list \<Rightarrow> run_result
     \<Rightarrow> bool \<times> TrainingService" where
  "run_with_cancel_after k svc jid total_rounds iterations res =
    (let ws = run_writes total_rounds iterations res;
         svc = foldl (apply_write jid) svc (take k ws);
         (ok, svc) = cancel_training_job svc jid;
         svc = foldl (apply_write jid) svc (drop k ws)
     in (ok, finish_run (register_result res svc) jid))"

definition terminal :: "string \<Rightarrow> bool" where
  "terminal st = (st = ''completed'' \<or> st = ''failed'' \<or> st = ''cancelled'')"

definition get_job_data :: "TrainingService \<Rightarrow> string \<Rightarrow> TrainingJob option" where
  "get_job_data svc jid = find (\<lambda>j. job_id j = jid) (training_jobs svc)"

subsection \<open>Training configuration and hyperparameters\<close>

datatype pval = IntV int | RealV real | StrV string | StrListV "string list"

type_synonym pdict = "(string \<times> pval) list"

definition training_presets :: "(string \<times> pdict) list" where
  "training_presets =
    [(''fast'',
        [(''num_leaves'', IntV 31), (''learning_rate'', RealV 0.1),
         (''feature_fraction'', RealV 0.9), (''bagging_fraction'', RealV 0.8),
         (''bagging_freq'', IntV 5), (''verbose'', IntV 0),
         (''num_boost_round'', IntV 100), (''early_stopping_rounds'', IntV 10)]),
     (''balanced'',
        [(''num_leaves'', IntV 63), (''learning_rate'', RealV 0.05),
         (''feature_fraction'', RealV 0.8), (''bagging_fraction'', RealV 0.7),
         (''bagging_freq'', IntV 5), (''verbose'', IntV 0),
         (''num_boost_round'', IntV 300), (''early_stopping_rounds'', IntV 20)]),
     (''thorough'',
        [(''num_leaves'', IntV 127), (''learning_rate'', RealV 0.02),
         (''feature_fraction'', RealV 0.7), (''bagging_fraction'', RealV 0.6),
         (''bagging_freq'', IntV 5), (''verbose'', IntV 0),
         (''num_boost_round'', IntV 1000), (''early_stopping_rounds'', IntV 50)])]"

record TrainingJobRequest =
  req_preset :: "string option"
  req_cv_folds :: "int option"
  req_test_size :: "real option"
  req_random_state :: "int option"
  req_hyperparameters :: "pdict option"

record training_config =
  algorithm :: string
  preset :: string
  cv_folds :: int
  test_size :: real
  random_state :: int
  hyperparameters :: pdict

text \<open>
  \<^verbatim>\<open>x or d\<close> gives \<open>d\<close> when \<open>x\<close> is \<^verbatim>\<open>None\<close> and also when it is falsy: the empty
  string, zero, the empty dictionary.
\<close>

definition prepare_training_config :: "TrainingJobRequest \<Rightarrow> training_config" where
  "prepare_training_config request =
    \<lparr>algorithm = ''lightgbm'',
     preset = (case req_preset request of None \<Rightarrow> ''balanced''
               | Some p \<Rightarrow> if p = [] then ''balanced'' else p),
     cv_folds = (case req_cv_folds request of None \<Rightarrow> 5
                 | Some n \<Rightarrow> if n = 0 then 5 else n),
     test_size = (case req_test_size request of None \<Rightarrow> 0.2
                  | Some t \<Rightarrow> if t = 0 then 0.2 else t),
     random_state = (case req_random_state request of None \<Rightarrow> 42
                     | Some r \<Rightarrow> if r = 0 then 42 else r),
     hyperparameters = (case req_hyperparameters request of None \<Rightarrow> []
                        | Some h \<Rightarrow> h)\<rparr>"

text \<open>
  The head of \<^verbatim>\<open>_train_lightgbm_model\<close>, up to the call of the booster: the
  hyperparameters chosen, the parameter dictionary, and the two values popped from
  it. The result is what \<^verbatim>\<open>lgb.train\<close> receives: \<open>(params, num_boost_round,
  early_stopping_rounds)\<close>.
\<close>

definition base_params :: pdict where
  "base_params =
    [(''objective'', StrV ''binary''),
     (''metric'', StrListV [''binary_logloss'', ''auc'']),
     (''boosting_type'', StrV ''gbdt''),
     (''num_class'', IntV 1),
     (''verbose'', IntV (-1))]"

definition chosen_hyperparameters :: "training_config \<Rightarrow> pdict" where
  "chosen_hyperparameters config =
    (let hyperparams = hyperparameters config
     in if hyperparams = [] \<and> map_of training_presets (preset config) \<noteq> None
        then the (map_of training_presets (preset config))
        else hyperparams)"

definition train_lightgbm_params :: "training_config \<Rightarrow> pdict \<times> pval \<times> pval" where
  "train_lightgbm_params config =
    (let params = dict_merge base_params (chosen_hyperparameters config);
         (num_boost_round, params) = dict_pop ''num_boost_round'' (IntV 300) params;
         (early_stopping_rounds, params) = dict_pop ''early_stopping_rounds'' (IntV 20) params
     in (params, num_boost_round, early_stopping_rounds))"

text \<open>
  The value under which training runs for a hyperparameter name: the popped value for
  the two training-specific names, the entry of \<open>params\<close> otherwise (\<open>None\<close> when the
  booster is left to its own default).
\<close>

definition used_hyperparameter :: "training_config \<Rightarrow> string \<Rightarrow> pval option" where
  "used_hyperparameter config k =
    (case train_lightgbm_params config of
       (params, num_boost_round, early_stopping_rounds) \<Rightarrow>
         if k = ''num_boost_round'' then Some num_boost_round
         else if k = ''early_stopping_rounds'' then Some early_stopping_rounds
         else map_of params k)"

text \<open>
  What a name falls back to when the chosen hyperparameters do not have it: the
  defaults of the two \<^verbatim>\<open>pop\<close> calls, or the entry of the base parameters.
\<close>

definition hp_default :: "string \<Rightarrow> pval option" where
  "hp_default k =
    (if k = ''num_boost_round'' then Some (IntV 300)
     else if k = ''early_stopping_rounds'' then Some (IntV 20)
     else map_of base_params k)"

definition preset_hyperparameter_names :: "string list" where
  "preset_hyperparameter_names =
    [''num_leaves'', ''learning_rate'', ''feature_fraction'', ''bagging_fraction'',
     ''bagging_freq'', ''num_boost_round'', ''early_stopping_rounds'']"

subsection \<open>The spec's formulas, written from its words\<close>

text \<open>
  The fallback scorer of the specification: a base of 0.10 and three independent
  increments, capped at 0.95.
\<close>

definition spec_credit_increment :: "real \<Rightarrow> real" where
  "spec_credit_increment cs = (if cs < 600 then 0.30 else if cs < 650 then 0.15
                               else if cs < 700 then 0.05 else 0)"

definition spec_dti_increment :: "real \<Rightarrow> real" where
  "spec_dti_increment dti = (if dti > 50 then 0.25 else if dti > 40 then 0.10 else 0)"

definition spec_ltv_increment :: "real \<Rightarrow> real" where
  "spec_ltv_increment ltv = (if ltv > 100 then 0.20 else if ltv > 90 then 0.10 else 0)"

definition spec_fallback_probability :: "real \<Rightarrow> real \<Rightarrow> real \<Rightarrow> real" where
  "spec_fallback_probability cs dti ltv =
    min 0.95 (0.10 + spec_credit_increment cs + spec_dti_increment dti
              + spec_ltv_increment ltv)"

text \<open>The confidence score of the specification.\<close>

definition spec_feature_quality :: "real \<Rightarrow> real \<Rightarrow> real" where
  "spec_feature_quality cs income =
    1.0 * (if cs < 300 \<or> 850 < cs then 0.8 else 1)
        * (if income < 10000 \<or> 500000 < income then 0.9 else 1)"

definition spec_confidence :: "real \<Rightarrow> real \<Rightarrow> real \<Rightarrow> real" where
  "spec_confidence p cs income =
    max 0.1 (min 0.99 (0.7 * (1 - 2 * \<bar>p - 0.5\<bar>) + 0.3 * spec_feature_quality cs income))"

text \<open>
  The hyperparameter rule of the specification: the preset's value for a name, unless
  an explicit hyperparameter of that name is supplied.
\<close>

definition spec_hyperparameter :: "training_config \<Rightarrow> string \<Rightarrow> pval option" where
  "spec_hyperparameter config k =
    (case map_of (hyperparameters config) k of
       Some v \<Rightarrow> Some v
     | None \<Rightarrow>
         (case map_of training_presets (preset config) of
            Some table \<Rightarrow> map_of table k
          | None \<Rightarrow> None))"

subsection \<open>Auxiliary predicates and concrete inputs\<close>

definition example_features :: "real list" where
  "example_features = [550, 55, 110, 24, 55000, 5, 7, 1, 25000, 30000, 30, 1, 24, 60, 35]"

definition mock_service :: ModelService where
  "mock_service = \<lparr>models = [(''v1.0.0'', MockModel)], prediction_count = 0\<rparr>"

definition two_version_service :: ModelService where
  "two_version_service =
     \<lparr>models = [(''v1.10.0'', Predictor (\<lambda>_. 0.2) None), (''v1.2.0'', MockModel)],
      prediction_count = 0\<rparr>"

definition example_registry :: "ModelRegistryEntry list" where
  "example_registry =
    [\<lparr>model_id = ''m1'', entry_status = ''deployed'', is_production = True,
      deployed_at = Some 1, deployment_config = Some []\<rparr>,
     \<lparr>model_id = ''m2'', entry_status = ''ready'', is_production = False,
      deployed_at = None, deployment_config = None\<rparr>]"

definition registry_service :: TrainingService where
  "registry_service =
    \<lparr>training_jobs = [], model_registry = example_registry, running_jobs = []\<rparr>"

definition override_request :: TrainingJobRequest where
  "override_request =
    \<lparr>req_preset = Some ''fast'', req_cv_folds = None, req_test_size = None,
     req_random_state = None,
     req_hyperparameters = Some [(''learning_rate'', RealV 0.2)]\<rparr>"

definition preset_request :: TrainingJobRequest where
  "preset_request =
    \<lparr>req_preset = Some ''thorough'', req_cv_folds = None, req_test_size = None,
     req_random_state = None, req_hyperparameters = None\<rparr>"

definition example_job :: TrainingJob where
  "example_job =
    \<lparr>job_id = ''job-1'', status = ''queued'', status_message = None, progress = 0,
     metrics = None, model_path = None\<rparr>"

definition job_service :: TrainingService where
  "job_service = \<lparr>training_jobs = [example_job], model_registry = [], running_jobs = []\<rparr>"

definition example_metrics :: metrics where
  "example_metrics = [(''test_auc_roc'', 0.9)]"

definition example_run :: run_result where
  "example_run = Succeeds example_metrics ''models/model_job-1.joblib'' ''model-1''"

text \<open>
  A valid raw input, in the words of the specification: every field that one of the
  directly extracted features resolves is numeric (\<open>numeric_raw\<close>). \<open>direct_paths\<close> are
  the lookup paths of those eleven features. \<open>valid_raw\<close> asks in addition that an
  integer field is in the range in which \<^verbatim>\<open>float\<close> converts it.
\<close>

definition is_numeric :: "pyval \<Rightarrow> bool" where
  "is_numeric v = (case v of PBool _ \<Rightarrow> True | PInt _ \<Rightarrow> True | PFloat _ \<Rightarrow> True | _ \<Rightarrow> False)"

definition direct_paths :: "string list list" where
  "direct_paths =
    credit_score_paths @ employment_months_paths @ annual_income_paths
    @ credit_history_years_paths @ delinquencies_paths @ loan_amount_paths
    @ vehicle_value_paths @ credit_utilization_paths @ recent_inquiries_paths
    @ address_months_paths @ loan_term_months_paths"

definition numeric_raw :: "pyval \<Rightarrow> bool" where
  "numeric_raw raw =
    list_all (\<lambda>path. get_nested_value raw path = PNone \<or> is_numeric (get_nested_value raw path))
      direct_paths"

definition convertible :: "pyval \<Rightarrow> bool" where
  "convertible v =
    (case v of
       PBool _ \<Rightarrow> True
     | PInt n \<Rightarrow> \<bar>n\<bar> < 2 ^ 1024 - 2 ^ 970
     | PFloat _ \<Rightarrow> True
     | _ \<Rightarrow> False)"

definition valid_raw :: "pyval \<Rightarrow> bool" where
  "valid_raw raw =
    list_all (\<lambda>path. get_nested_value raw path = PNone \<or> convertible (get_nested_value raw path))
      direct_paths"

text \<open>The dictionary \<^verbatim>\<open>features\<close> as \<open>compute_features\<close> fills it.\<close>

definition feature_dict ::
  "pyenv \<Rightarrow> pyval \<Rightarrow> real \<Rightarrow> real \<Rightarrow> real \<Rightarrow> real \<Rightarrow> real \<Rightarrow> real \<Rightarrow> real \<Rightarrow> real
     \<Rightarrow> real \<Rightarrow> real \<Rightarrow> real \<Rightarrow> (string \<times> real) list" where
  "feature_dict env raw cs em ai chy dl la vv cu ri am lt =
     [(''credit_score'', cs),
      (''debt_to_income_ratio'', calculate_debt_to_income_ratio env raw),
      (''loan_to_value_ratio'', calculate_loan_to_value_ratio env raw),
      (''employment_months'', em),
      (''annual_income'', ai),
      (''vehicle_age'', calculate_vehicle_age env raw),
      (''credit_history_years'', chy),
      (''delinquencies_24m'', dl),
      (''loan_amount'', la),
      (''vehicle_value'', vv),
      (''credit_utilization'', cu),
      (''recent_inquiries_6m'', ri),
      (''address_months'', am),
      (''loan_term_months'', lt),
      (''applicant_age'', calculate_applicant_age env raw)]"

definition example_env :: pyenv where
  "example_env =
    \<lparr>float_of_str = (\<lambda>_. None), int_of_str = (\<lambda>_. None), current_year = 2024,
     today = (2024, 6, 15), fromisoformat = (\<lambda>_. None),
     strptime_ymd = (\<lambda>s. if s = ''1990-09-01'' then Some (1990, 9, 1) else None)\<rparr>"

definition example_raw :: pyval where
  "example_raw =
    PDict [(''credit_score'', PInt 900),
           (''applicant'', PDict [(''annual_income'', PFloat 60000)]),
           (''loan'', PDict [(''amount'', PInt 24000), (''term_months'', PInt 6)]),
           (''vehicle_year'', PInt 2020),
           (''date_of_birth'', PStr ''1990-09-01'')]"

definition dti_raw :: pyval where
  "dti_raw = PDict [(''debt_to_income_ratio'', PFloat 20)]"

definition big_raw :: pyval where
  "big_raw = PDict [(''credit_score'', PInt (10 ^ 309))]"

definition tiny_income_raw :: "(string \<times> pyval) list" where
  "tiny_income_raw = [(''annual_income'', PFloat (1 / 2 ^ 1074))]"

text \<open>A list of lookup paths none of which starts with the key \<open>k\<close>.\<close>

definition avoids :: "string \<Rightarrow> string list list \<Rightarrow> bool" where
  "avoids k paths = list_all (\<lambda>p. p \<noteq> [] \<and> hd p \<noteq> k) paths"

section \<open>Properties\<close>

subsection \<open>Helper lemmas\<close>

lemma at_or_in: "i < length row \<Longrightarrow> at_or row i d = row ! i"
  by (simp add: at_or_def)

lemma mock_fraud_prob_spec:
  assumes "3 \<le> length row"
  shows "mock_fraud_prob row = spec_fallback_probability (row ! 0) (row ! 1) (row ! 2)"
proof -
  from assms have a: "at_or row 0 650 = row ! 0" "at_or row 1 30 = row ! 1"
    "at_or row 2 80 = row ! 2"
    by (auto simp: at_or_def)
  show ?thesis
    unfolding mock_fraud_prob_def a
    by (simp add: spec_fallback_probability_def Let_def
      spec_credit_increment_def spec_dti_increment_def spec_ltv_increment_def min_def)
qed

lemma model_output_mock: "model_output MockModel features = mock_fraud_prob features"
  by (simp add: model_output_def predict_proba_def)

lemma load_models_nothing_loaded:
  "list_all (\<lambda>f. snd f = None) model_files \<Longrightarrow>
   models (load_models \<lparr>models = [], prediction_count = n\<rparr> model_files)
     = [(default_model_version, MockModel)]"
proof -
  assume h: "list_all (\<lambda>f. snd f = None) model_files"
  have "foldl load_model_file svc model_files = svc" for svc
    using h by (induction model_files arbitrary: svc) (auto simp: load_model_file_def)
  then show ?thesis
    by (simp add: load_models_def create_mock_model_def Let_def)
qed

lemma predict_mock_only:
  assumes "models svc = [(default_model_version, MockModel)]" "length features = 15"
  shows "predict svc features None =
     Inr (\<lparr>fraud_probability = mock_fraud_prob features,
           confidence_score = calculate_confidence (mock_fraud_prob features) features,
           risk_tier = get_risk_tier (mock_fraud_prob features),
           feature_importance = get_feature_importance MockModel features,
           model_version = default_model_version\<rparr>,
          svc\<lparr>prediction_count := prediction_count svc + 1\<rparr>)"
  using assms
  by (simp add: predict_def get_latest_model_version_def model_output_mock Let_def)

lemma calculate_confidence_spec:
  assumes "length features = 15"
  shows "calculate_confidence p features = spec_confidence p (features ! 0) (features ! 4)"
proof -
  from assms have a: "at_or features 0 650 = features ! 0"
    "at_or features 4 50000 = features ! 4"
    by (auto simp: at_or_def)
  show ?thesis
    unfolding calculate_confidence_def a
    by (simp add: spec_confidence_def spec_feature_quality_def Let_def)
qed

lemma predict_Inr_fields:
  assumes "predict svc features version = Inr (r, svc')"
  shows "length features = 15
       \<and> confidence_score r = calculate_confidence (fraud_probability r) features
       \<and> risk_tier r = get_risk_tier (fraud_probability r)
       \<and> map_of (models svc) (model_version r) \<noteq> None
       \<and> fraud_probability r = model_output (the (map_of (models svc) (model_version r))) features
       \<and> prediction_count svc' = prediction_count svc + 1"
  using assms
  by (auto simp: predict_def Let_def split: sum.splits option.splits if_splits)

lemma predict_mock_example:
  "predict mock_service example_features None =
     Inr (\<lparr>fraud_probability = 0.85, confidence_score = 0.51, risk_tier = HIGH,
            feature_importance = get_feature_importance MockModel example_features,
            model_version = ''v1.0.0''\<rparr>,
          \<lparr>models = [(''v1.0.0'', MockModel)], prediction_count = 1\<rparr>)"
  by (simp add: predict_def mock_service_def example_features_def get_latest_model_version_def
      model_output_def predict_proba_def mock_fraud_prob_def at_or_def Let_def
      calculate_confidence_def get_risk_tier_def)

lemma sorted_le_last:
  assumes "sorted ys" and "x \<in> set ys"
  shows "x \<le> last ys"
proof -
  from assms(2) obtain i where i: "i < length ys" "ys ! i = x"
    by (auto simp: in_set_conv_nth)
  then have ne: "ys \<noteq> []" by auto
  have "ys ! i \<le> ys ! (length ys - 1)"
    by (rule sorted_nth_mono) (use assms(1) i in auto)
  then show ?thesis using i ne by (simp add: last_conv_nth)
qed

lemma hd_rev_sort_Max:
  assumes "xs \<noteq> []"
  shows "hd (rev (sort xs)) = Max (set xs)"
proof -
  have ne: "sort xs \<noteq> []"
    using assms by (metis length_0_conv length_sort)
  have "last (sort xs) \<in> set (sort xs)"
    using ne by (rule last_in_set)
  then have mem: "last (sort xs) \<in> set xs" by simp
  have ub: "x \<le> last (sort xs)" if "x \<in> set xs" for x
    by (rule sorted_le_last) (use that in simp_all)
  have "Max (set xs) = last (sort xs)"
    by (rule Max_eqI) (use mem ub in auto)
  then show ?thesis by (simp add: hd_rev)
qed

lemma latest_is_Max:
  assumes "models svc \<noteq> []"
  shows "get_latest_model_version svc = Inr (Max (set (map fst (models svc))))"
  using assms hd_rev_sort_Max [of "map fst (models svc)"]
  by (simp add: get_latest_model_version_def)

lemma map_of_key_Some:
  assumes "k \<in> set (map fst kvs)"
  shows "\<exists>v. map_of kvs k = Some v"
  using assms by (induction kvs) auto

lemma predict_latest: 
  assumes l: "get_latest_model_version svc = Inr k" and m: "map_of (models svc) k = Some m"
   and "version = None \<or> version = Some ''latest''" "length features = 15"
  shows "predict svc features version =
     Inr (\<lparr>fraud_probability = model_output m features,
           confidence_score = calculate_confidence (model_output m features) features,
           risk_tier = get_risk_tier (model_output m features),
           feature_importance = get_feature_importance m features,
           model_version = k\<rparr>,
          svc\<lparr>prediction_count := prediction_count svc + 1\<rparr>)"
proof -
  have "(if version = None \<or> version = Some ''latest''
           then get_latest_model_version svc
           else Inr (the version)) = Inr k"
    using assms(3) l by simp
  then show ?thesis
    unfolding predict_def using m assms(4) by (simp add: Let_def)
qed

lemma predict_not_found: "predict svc features (Some v) = Inl (ModelVersionNotFound v)"
    if "v \<noteq> ''latest''" "v \<notin> set (map fst (models svc))" 
  proof -
    from that have "map_of (models svc) v = None"
      by (simp add: map_of_eq_None_iff)
    then show ?thesis using that(1) by (simp add: predict_def)
  qed


lemma max_model:
  assumes "models svc \<noteq> []"
  shows "\<exists>m. map_of (models svc) (Max (set (map fst (models svc)))) = Some m"
proof -
  let ?K = "set (map fst (models svc))"
  have fin: "finite ?K" by simp
  have ne: "?K \<noteq> {}" using assms by simp
  have "Max ?K \<in> ?K" using fin ne by (rule Max_in)
  then show ?thesis by (rule map_of_key_Some)
qed

lemma predict_latest_exists:
  assumes ne: "models svc \<noteq> []"
    and v: "version = None \<or> version = Some ''latest''"
    and len: "length features = 15"
  shows "\<exists>r svc' m. predict svc features version = Inr (r, svc')
           \<and> model_version r = Max (set (map fst (models svc)))
           \<and> map_of (models svc) (model_version r) = Some m
           \<and> fraud_probability r = model_output m features"
proof -
  let ?k = "Max (set (map fst (models svc)))"
  from max_model [OF ne] obtain m where m: "map_of (models svc) ?k = Some m" ..
  have l: "get_latest_model_version svc = Inr ?k"
    using ne by (rule latest_is_Max)
  define r where "r = \<lparr>fraud_probability = model_output m features,
           confidence_score = calculate_confidence (model_output m features) features,
           risk_tier = get_risk_tier (model_output m features),
           feature_importance = get_feature_importance m features,
           model_version = ?k\<rparr>"
  have "predict svc features version
          = Inr (r, svc\<lparr>prediction_count := prediction_count svc + 1\<rparr>)"
    unfolding r_def using l m v len by (rule predict_latest)
  moreover have "model_version r = ?k" by (simp add: r_def)
  moreover have "map_of (models svc) (model_version r) = Some m"
    using m by (simp add: r_def)
  moreover have "fraud_probability r = model_output m features" by (simp add: r_def)
  ultimately show ?thesis by blast
qed

lemma string_order_example: "''v1.10.0'' < ''v1.2.0''"
  by simp

lemma two_version_latest: "get_latest_model_version two_version_service = Inr ''v1.2.0''"
  by (simp add: get_latest_model_version_def two_version_service_def)

lemma distinct_key_filter_le_1:
  assumes "distinct (map k rows)"
  shows "length (filter (\<lambda>r. k r = m) rows) \<le> 1"
  using assms
proof (induction rows)
  case Nil
  then show ?case by simp
next
  case (Cons a rows)
  show ?case
  proof (cases "k a = m")
    case True
    have "k a \<notin> k ` set rows" using Cons.prems by simp
    then have "\<forall>x\<in>set rows. k x \<noteq> m" using True by blast
    then have "filter (\<lambda>r. k r = m) rows = []"
      by (simp add: filter_empty_conv)
    then show ?thesis using True by simp
  next
    case False
    then show ?thesis using Cons by simp
  qed
qed

lemma deploy_model_eq:
  "deploy_model svc mid cfg now =
     (rows_matched (\<lambda>e. model_id e = mid) (model_registry svc) \<noteq> 0,
      svc\<lparr>model_registry := map (\<lambda>e. if model_id e = mid
       then e\<lparr>is_production := True, deployed_at := Some now,
                             deployment_config := Some cfg, entry_status := ''deployed''\<rparr>
       else e\<lparr>is_production := False\<rparr>) (model_registry svc)\<rparr>)"
  by (simp add: deploy_model_def Let_def sql_update_def rows_matched_def filter_map comp_def)

lemma map_of_dict_set: "map_of (dict_set k v d) = (map_of d)(k \<mapsto> v)"
  by (induction d) (auto simp: fun_eq_iff)

lemma map_of_dict_merge:
  assumes "distinct (map fst b)"
  shows "map_of (dict_merge a b) k
           = (case map_of b k of Some v \<Rightarrow> Some v | None \<Rightarrow> map_of a k)"
  using assms
proof (induction b arbitrary: a)
  case Nil
  then show ?case by (simp add: dict_merge_def)
next
  case (Cons x b)
  obtain k' v' where x: "x = (k', v')" by (cases x)
  have d: "distinct (map fst b)" and n: "k' \<notin> fst ` set b"
    using Cons.prems x by simp_all
  have m: "dict_merge a (x # b) = dict_merge (dict_set k' v' a) b"
    by (simp add: dict_merge_def x)
  have ih: "map_of (dict_merge (dict_set k' v' a) b) k
           = (case map_of b k of Some v \<Rightarrow> Some v | None \<Rightarrow> map_of (dict_set k' v' a) k)"
    using d by (rule Cons.IH)
  show ?case
  proof (cases "k = k'")
    case True
    then have "map_of b k = None" using n by (simp add: map_of_eq_None_iff)
    then show ?thesis unfolding m ih using True x by (simp add: map_of_dict_set)
  next
    case False
    then show ?thesis unfolding m ih using x by (simp add: map_of_dict_set split: option.splits)
  qed
qed

lemma map_of_filter_key:
  "map_of (filter (\<lambda>(k', _). k' \<noteq> k) d) j = (if j = k then None else map_of d j)"
  by (induction d) auto

lemma dict_pop_value:
  "fst (dict_pop k dflt d) = (case map_of d k of Some v \<Rightarrow> v | None \<Rightarrow> dflt)"
  by (simp add: dict_pop_def split: option.splits)

lemma dict_pop_rest:
  "map_of (snd (dict_pop k dflt d)) j = (if j = k then None else map_of d j)"
  by (auto simp: dict_pop_def map_of_filter_key split: option.splits)

lemma used_hyperparameter_eq:
  assumes "distinct (map fst (chosen_hyperparameters config))"
  shows "used_hyperparameter config k
           = (case map_of (chosen_hyperparameters config) k of
                Some v \<Rightarrow> Some v
              | None \<Rightarrow> hp_default k)"
proof -
  let ?p = "dict_merge base_params (chosen_hyperparameters config)"
  let ?p1 = "snd (dict_pop ''num_boost_round'' (IntV 300) ?p)"
  have t: "train_lightgbm_params config
             = (snd (dict_pop ''early_stopping_rounds'' (IntV 20) ?p1),
                fst (dict_pop ''num_boost_round'' (IntV 300) ?p),
                fst (dict_pop ''early_stopping_rounds'' (IntV 20) ?p1))"
    by (simp add: train_lightgbm_params_def Let_def split_beta)
  have mp: "map_of ?p j = (case map_of (chosen_hyperparameters config) j of
                Some v \<Rightarrow> Some v | None \<Rightarrow> map_of base_params j)" for j
    using assms by (rule map_of_dict_merge)
  have b1: "map_of base_params ''num_boost_round'' = None"
    and b2: "map_of base_params ''early_stopping_rounds'' = None"
    by (simp_all add: base_params_def)
  show ?thesis
    unfolding used_hyperparameter_def t
    by (simp add: dict_pop_value dict_pop_rest mp hp_default_def b1 b2 split: option.splits)
qed

lemma presets_distinct:
  "map_of training_presets p = Some table \<Longrightarrow> distinct (map fst table)"
  by (auto simp: training_presets_def split: if_splits)

lemma sql_update_none:
  assumes "\<forall>r \<in> set rows. \<not> c r"
  shows "sql_update c f rows = rows" and "rows_matched c rows = 0"
  using assms by (simp_all add: sql_update_def rows_matched_def map_idI)

lemma cancel_terminal_job_is_noop:
  assumes "\<forall>j \<in> set (training_jobs svc). job_id j = jid \<longrightarrow> terminal (status j)"
  shows "fst (cancel_training_job svc jid) = False"
    and "training_jobs (snd (cancel_training_job svc jid)) = training_jobs svc"
proof -
  have n: "\<forall>j \<in> set (training_jobs svc). \<not> cancellable jid j"
    using assms by (auto simp: cancellable_def terminal_def)
  show "fst (cancel_training_job svc jid) = False"
    using sql_update_none(2) [OF n] by (simp add: cancel_training_job_def Let_def)
  show "training_jobs (snd (cancel_training_job svc jid)) = training_jobs svc"
    using sql_update_none(1) [OF n] by (simp add: cancel_training_job_def Let_def)
qed

lemma cancel_active_job:
  assumes "j \<in> set (training_jobs svc)" "job_id j = jid"
    "status j = ''queued'' \<or> status j = ''running''"
  shows "fst (cancel_training_job svc jid) = True"
    and "j\<lparr>status := ''cancelled'', status_message := Some ''Cancelled by user''\<rparr>
           \<in> set (training_jobs (snd (cancel_training_job svc jid)))"
proof -
  have c: "cancellable jid j" using assms(2,3) by (simp add: cancellable_def)
  then have "j \<in> set (filter (cancellable jid) (training_jobs svc))"
    using assms(1) by simp
  then have "filter (cancellable jid) (training_jobs svc) \<noteq> []"
    by (metis empty_iff empty_set)
  then show "fst (cancel_training_job svc jid) = True"
    by (simp add: cancel_training_job_def Let_def rows_matched_def)
  show "j\<lparr>status := ''cancelled'', status_message := Some ''Cancelled by user''\<rparr>
           \<in> set (training_jobs (snd (cancel_training_job svc jid)))"
    using assms(1) c
    by (force simp: cancel_training_job_def Let_def sql_update_def)
qed

lemma update_job_status_unguarded:
  assumes "j \<in> set (training_jobs svc)" "job_id j = jid"
  shows "j\<lparr>status := st, status_message := message, metrics := mtr, model_path := path\<rparr>
           \<in> set (training_jobs (update_job_status svc jid st message mtr path))"
  using assms by (force simp: update_job_status_def sql_update_def)

lemma pow2_powr: "pow2 k = 2 powr (of_int k)"
  by (simp add: pow2_def powr_int)

lemma double_round_exponent:
  assumes "pow2 e \<le> \<bar>x\<bar>" "\<bar>x\<bar> < pow2 (e + 1)" "- 1022 \<le> e"
  shows "double_round x = of_int (round_half_even (x / pow2 (e - 52))) * pow2 (e - 52)"
proof -
  have p: "0 < pow2 e" by (simp add: pow2_def)
  with assms(1) have x: "0 < \<bar>x\<bar>" by linarith
  then have nz: "x \<noteq> 0" by simp
  have "\<lfloor>log 2 \<bar>x\<bar>\<rfloor> = e"
    using assms(1,2) x by (simp add: floor_log_eq_powr_iff pow2_powr)
  then show ?thesis
    using nz assms(3) by (simp add: double_round_def Let_def max_def)
qed

lemma example_callbacks:
  "progress_callback 100 0 = [ProgressWrite 30 (Some ''Training iteration'')]"
  "progress_callback 100 10 = [ProgressWrite 35 (Some ''Training iteration'')]"
  "progress_callback 100 20 = [ProgressWrite 40 (Some ''Training iteration'')]"
proof -
  show "progress_callback 100 0 = [ProgressWrite 30 (Some ''Training iteration'')]"
    by (simp add: progress_callback_def double_round_def)
  have q1: "real (10::nat) / real (100::nat) = 1 / 10" by simp
  have a1: "double_round (1 / 10) = 7205759403792794 / 2 ^ 56"
    by (subst double_round_exponent [where e = "-4"])
      (simp_all add: pow2_def round_half_even_def Let_def)
  have b1: "double_round (7205759403792794 / 2 ^ 56 * 50) = 5"
    by (subst double_round_exponent [where e = "2"])
      (simp_all add: pow2_def round_half_even_def Let_def)
  have "(10::nat) mod 10 = 0" by simp
  then show "progress_callback 100 10 = [ProgressWrite 35 (Some ''Training iteration'')]"
    unfolding progress_callback_def q1 a1 b1 by simp
  have q2: "real (20::nat) / real (100::nat) = 1 / 5" by simp
  have a2: "double_round (1 / 5) = 7205759403792794 / 2 ^ 55"
    by (subst double_round_exponent [where e = "-3"])
      (simp_all add: pow2_def round_half_even_def Let_def)
  have b2: "double_round (7205759403792794 / 2 ^ 55 * 50) = 10"
    by (subst double_round_exponent [where e = "3"])
      (simp_all add: pow2_def round_half_even_def Let_def)
  have "(20::nat) mod 10 = 0" by simp
  then show "progress_callback 100 20 = [ProgressWrite 40 (Some ''Training iteration'')]"
    unfolding progress_callback_def q2 a2 b2 by simp
qed

lemma rounded_callback_example:
  "progress_callback 1000 580 = [ProgressWrite 58 (Some ''Training iteration'')]"
proof -
  have q: "real (580::nat) / real (1000::nat) = 29 / 50" by simp
  have a: "double_round (29 / 50) = 5224175567749775 / 2 ^ 53"
    by (subst double_round_exponent [where e = "-1"])
      (simp_all add: pow2_def round_half_even_def Let_def)
  have b: "\<lfloor>double_round (5224175567749775 / 2 ^ 53 * 50)\<rfloor> = 28"
    by (subst double_round_exponent [where e = "4"])
      (simp_all add: pow2_def round_half_even_def Let_def)
  have "(580::nat) mod 10 = 0" by simp
  then show ?thesis
    unfolding progress_callback_def q a b by simp
qed

lemma example_run_writes:
  "run_writes 100 [0, 10, 20] example_run =
    [StatusWrite ''running'' (Some ''Initializing training...'') None None,
     ProgressWrite 10 (Some ''Preparing training data...''),
     ProgressWrite 20 (Some ''Splitting data...''),
     ProgressWrite 30 (Some ''Training model...''),
     ProgressWrite 80 (Some ''Evaluating model...''),
     ProgressWrite 30 (Some ''Training iteration''),
     ProgressWrite 35 (Some ''Training iteration''),
     ProgressWrite 40 (Some ''Training iteration''),
     ProgressWrite 90 (Some ''Running cross-validation...''),
     ProgressWrite 95 (Some ''Saving model...''),
     StatusWrite ''completed'' (Some ''Training completed successfully'')
       (Some example_metrics) (Some ''models/model_job-1.joblib'')]"
  by (simp add: run_writes_def example_run_def writes_before_def callback_writes_def
      example_callbacks completed_write_def Let_def)

lemma example_before_cancel:
  "foldl (apply_write ''job-1'') job_service (take 4 (run_writes 100 [0, 10, 20] example_run))
     = \<lparr>training_jobs =
          [\<lparr>job_id = ''job-1'', status = ''running'',
            status_message = Some ''Training model...'', progress = 30,
            metrics = None, model_path = None\<rparr>],
        model_registry = [], running_jobs = []\<rparr>"
  unfolding example_run_writes
  by (simp add: job_service_def example_job_def update_job_status_def update_job_progress_def
      sql_update_def)

lemma and_then_Inr: "and_then (Inr x) f = f x"
  by (simp add: and_then_def)

lemma round_half_even_zero_iff: "round_half_even y = 0 \<longleftrightarrow> \<bar>y\<bar> \<le> 1 / 2"
proof
  assume h: "round_half_even y = 0"
  show "\<bar>y\<bar> \<le> 1 / 2"
  proof (cases "y - of_int \<lfloor>y\<rfloor> < 1 / 2")
    case True
    with h have "\<lfloor>y\<rfloor> = 0" by (simp add: round_half_even_def Let_def)
    with True show ?thesis by (simp add: floor_eq_iff)
  next
    case False
    note nlt = this
    show ?thesis
    proof (cases "1 / 2 < y - of_int \<lfloor>y\<rfloor>")
      case True
      with nlt h have "\<lfloor>y\<rfloor> = -1" by (simp add: round_half_even_def Let_def)
      with True show ?thesis by (simp add: floor_eq_iff)
    next
      case False
      with nlt have e: "y = of_int \<lfloor>y\<rfloor> + 1 / 2" by simp
      from h nlt False have "\<lfloor>y\<rfloor> = 0 \<or> \<lfloor>y\<rfloor> = -1"
        by (auto simp: round_half_even_def Let_def split: if_splits)
      with e show ?thesis by auto
    qed
  qed
next
  assume h: "\<bar>y\<bar> \<le> 1 / 2"
  consider "y = 1 / 2" | "y = - 1 / 2" | "0 \<le> y \<and> y < 1 / 2" | "- 1 / 2 < y \<and> y < 0"
    using h by fastforce
  then show "round_half_even y = 0"
  proof cases
    case 1
    then have "\<lfloor>y\<rfloor> = 0" by (simp add: floor_eq_iff)
    with 1 show ?thesis by (simp add: round_half_even_def Let_def)
  next
    case 2
    then have "\<lfloor>y\<rfloor> = -1" by (simp add: floor_eq_iff)
    with 2 show ?thesis by (simp add: round_half_even_def Let_def)
  next
    case 3
    then have "\<lfloor>y\<rfloor> = 0" by (simp add: floor_eq_iff)
    with 3 show ?thesis by (simp add: round_half_even_def Let_def)
  next
    case 4
    then have "\<lfloor>y\<rfloor> = -1" by (simp add: floor_eq_iff)
    with 4 show ?thesis by (simp add: round_half_even_def Let_def)
  qed
qed

lemma fl_div_normal: "1 / 2 ^ 1022 \<le> \<bar>a / b\<bar> \<Longrightarrow> fl_div a b = a / b"
  by (simp add: fl_div_def Let_def)

lemma fl_div_zero_iff: "fl_div a b = 0 \<longleftrightarrow> \<bar>a / b\<bar> \<le> 1 / 2 ^ 1075"
proof (cases "\<bar>a / b\<bar> < 1 / 2 ^ 1022")
  case True
  have p: "(2::real) ^ 1075 = 2 * 2 ^ 1074" by simp
  have "fl_div a b = 0 \<longleftrightarrow> round_half_even (a / b * 2 ^ 1074) = 0"
    using True by (simp add: fl_div_def Let_def)
  also have "\<dots> \<longleftrightarrow> \<bar>a / b * 2 ^ 1074\<bar> \<le> 1 / 2"
    by (rule round_half_even_zero_iff)
  also have "\<dots> \<longleftrightarrow> \<bar>a / b\<bar> * 2 ^ 1074 \<le> 1 / 2"
    by (simp add: abs_mult)
  also have "\<dots> \<longleftrightarrow> \<bar>a / b\<bar> \<le> 1 / 2 ^ 1075"
    unfolding p by (simp add: field_simps del: power_numeral)
  finally show ?thesis .
next
  case False
  then have n: "1 / 2 ^ 1022 \<le> \<bar>a / b\<bar>" by simp
  have "(1::real) / 2 ^ 1075 < 1 / 2 ^ 1022"
    by (simp add: field_simps del: power_numeral) 
  with n have "\<not> \<bar>a / b\<bar> \<le> 1 / 2 ^ 1075" by linarith
  moreover have "fl_div a b \<noteq> 0"
    using n fl_div_normal [OF n] by auto
  ultimately show ?thesis by simp
qed

lemma py_float_convertible: "convertible v \<Longrightarrow> \<exists>x. py_float env v = Inr x"
  by (cases v) (simp_all add: convertible_def py_float_def py_float_of_int_def)

lemma extract_first_ok:
  assumes "\<forall>p \<in> set paths. get_nested_value data p = PNone \<or> convertible (get_nested_value data p)"
  shows "\<exists>x. extract_first env data paths d = Inr x"
  using assms
proof (induction paths)
  case Nil
  then show ?case by simp
next
  case (Cons p paths)
  show ?case
  proof (cases "get_nested_value data p = PNone")
    case True
    then show ?thesis using Cons by simp
  next
    case False
    then have "convertible (get_nested_value data p)" using Cons.prems by simp
    then show ?thesis using False py_float_convertible by simp
  qed
qed

lemma valid_raw_paths:
  assumes "valid_raw raw" "set paths \<subseteq> set direct_paths"
  shows "\<exists>x. extract_first env raw paths d = Inr x"
proof (rule extract_first_ok)
  show "\<forall>p \<in> set paths. get_nested_value raw p = PNone \<or> convertible (get_nested_value raw p)"
    using assms by (auto simp: valid_raw_def list_all_iff)
qed

lemma normalize_feature_simps:
  "normalize_feature ''credit_score'' x = max 300 (min 850 x)"
  "normalize_feature ''debt_to_income_ratio'' x = max 0 (min 100 x)"
  "normalize_feature ''loan_to_value_ratio'' x = max 0 (min 150 x)"
  "normalize_feature ''employment_months'' x = max 0 (min 600 x)"
  "normalize_feature ''annual_income'' x = max 0 (min 1000000 x)"
  "normalize_feature ''vehicle_age'' x = max 0 (min 50 x)"
  "normalize_feature ''credit_history_years'' x = max 0 (min 50 x)"
  "normalize_feature ''delinquencies_24m'' x = max 0 (min 20 x)"
  "normalize_feature ''loan_amount'' x = max 1000 (min 200000 x)"
  "normalize_feature ''vehicle_value'' x = max 1000 (min 500000 x)"
  "normalize_feature ''credit_utilization'' x = max 0 (min 100 x)"
  "normalize_feature ''recent_inquiries_6m'' x = max 0 (min 20 x)"
  "normalize_feature ''address_months'' x = max 0 (min 600 x)"
  "normalize_feature ''loan_term_months'' x = max 12 (min 120 x)"
  "normalize_feature ''applicant_age'' x = max 18 (min 100 x)"
  by (simp_all add: normalize_feature_def feature_bounds_def)

lemma compute_features_Inr:
  assumes "compute_features env raw = Inr fs"
  shows "\<exists>cs em ai chy dl la vv cu ri am lt.
           extract_credit_score env raw = Inr cs
         \<and> extract_employment_months env raw = Inr em
         \<and> extract_annual_income env raw = Inr ai
         \<and> extract_credit_history_years env raw = Inr chy
         \<and> extract_delinquencies env raw = Inr dl
         \<and> extract_loan_amount env raw = Inr la
         \<and> extract_vehicle_value env raw = Inr vv
         \<and> extract_credit_utilization env raw = Inr cu
         \<and> extract_recent_inquiries env raw = Inr ri
         \<and> extract_address_months env raw = Inr am
         \<and> extract_loan_term_months env raw = Inr lt
         \<and> fs = feature_dict env raw cs em ai chy dl la vv cu ri am lt"
  using assms
  unfolding compute_features_def and_then_def feature_dict_def
  by (auto split: sum.splits)

lemma compute_features_ok:
  assumes "extract_credit_score env raw = Inr cs"
    "extract_employment_months env raw = Inr em"
    "extract_annual_income env raw = Inr ai"
    "extract_credit_history_years env raw = Inr chy"
    "extract_delinquencies env raw = Inr dl"
    "extract_loan_amount env raw = Inr la"
    "extract_vehicle_value env raw = Inr vv"
    "extract_credit_utilization env raw = Inr cu"
    "extract_recent_inquiries env raw = Inr ri"
    "extract_address_months env raw = Inr am"
    "extract_loan_term_months env raw = Inr lt"
  shows "compute_features env raw = Inr (feature_dict env raw cs em ai chy dl la vv cu ri am lt)"
  unfolding compute_features_def assms and_then_Inr feature_dict_def ..

lemma normalized_feature_dict:
  "map (\<lambda>name.
          (let v = (case map_of (feature_dict env raw cs em ai chy dl la vv cu ri am lt) name of
                      Some x \<Rightarrow> x | None \<Rightarrow> 0.0)
           in normalize_feature name v))
       feature_names
   = [max 300 (min 850 cs),
      max 0 (min 100 (calculate_debt_to_income_ratio env raw)),
      max 0 (min 150 (calculate_loan_to_value_ratio env raw)),
      max 0 (min 600 em),
      max 0 (min 1000000 ai),
      max 0 (min 50 (calculate_vehicle_age env raw)),
      max 0 (min 50 chy),
      max 0 (min 20 dl),
      max 1000 (min 200000 la),
      max 1000 (min 500000 vv),
      max 0 (min 100 cu),
      max 0 (min 20 ri),
      max 0 (min 600 am),
      max 12 (min 120 lt),
      max 18 (min 100 (calculate_applicant_age env raw))]"
  by (simp add: feature_names_def feature_dict_def normalize_feature_simps)

lemma clamp_upper: "lo \<le> hi \<Longrightarrow> \<not> hi < max lo (min hi (x::real))"
  by auto

lemma validate_clamped:
  "validate_feature_vector
     [max 300 (min 850 x0), max 0 (min 100 x1), max 0 (min 150 x2), max 0 (min 600 x3),
      max 0 (min 1000000 x4), max 0 (min 50 x5), max 0 (min 50 x6), max 0 (min 20 x7),
      max 1000 (min 200000 x8), max 1000 (min 500000 x9), max 0 (min 100 x10),
      max 0 (min 20 x11), max 0 (min 600 x12), max 12 (min 120 x13), max 18 (min 100 x14)]"
  by (simp add: validate_feature_vector_def feature_names_def feature_bounds_def clamp_upper)

lemma preprocess_result_valid:
  assumes "preprocess_features env raw = Inr v"
  shows "length v = 15 \<and> validate_feature_vector v"
proof -
  from assms obtain fs where c: "compute_features env raw = Inr fs"
    by (auto simp: preprocess_features_def split: sum.splits)
  from compute_features_Inr [OF c] obtain cs em ai chy dl la vv cu ri am lt
    where fs: "fs = feature_dict env raw cs em ai chy dl la vv cu ri am lt"
    by blast
  have "preprocess_features env raw
          = Inr (map (\<lambda>name.
                   (let v = (case map_of (feature_dict env raw cs em ai chy dl la vv cu ri am lt) name of
                      Some x \<Rightarrow> x | None \<Rightarrow> 0.0)
                    in normalize_feature name v)) feature_names)"
    unfolding preprocess_features_def c fs sum.case ..
  then have v: "v = [max 300 (min 850 cs),
      max 0 (min 100 (calculate_debt_to_income_ratio env raw)),
      max 0 (min 150 (calculate_loan_to_value_ratio env raw)),
      max 0 (min 600 em),
      max 0 (min 1000000 ai),
      max 0 (min 50 (calculate_vehicle_age env raw)),
      max 0 (min 50 chy),
      max 0 (min 20 dl),
      max 1000 (min 200000 la),
      max 1000 (min 500000 vv),
      max 0 (min 100 cu),
      max 0 (min 20 ri),
      max 0 (min 600 am),
      max 12 (min 120 lt),
      max 18 (min 100 (calculate_applicant_age env raw))]"
    unfolding normalized_feature_dict assms by simp
  show ?thesis unfolding v using validate_clamped by simp
qed

lemma get_nested_value_other_key:
  assumes "p \<noteq> []" "hd p \<noteq> k"
  shows "get_nested_value (PDict ((k, x) # d)) p = get_nested_value (PDict d) p"
  using assms by (cases p) simp_all

lemma extract_first_other_key:
  assumes "avoids k paths"
  shows "extract_first env (PDict ((k, x) # d)) paths dflt = extract_first env (PDict d) paths dflt"
  using assms
  by (induction paths) (simp_all add: avoids_def get_nested_value_other_key)

lemma find_vehicle_year_other_key:
  assumes "avoids k paths"
  shows "find_vehicle_year env (PDict ((k, x) # d)) paths = find_vehicle_year env (PDict d) paths"
  using assms
  by (induction paths) (simp_all add: avoids_def get_nested_value_other_key)

lemma direct_age_other_key:
  assumes "avoids k paths"
  shows "direct_age env (PDict ((k, x) # d)) paths = direct_age env (PDict d) paths"
  using assms
  by (induction paths) (simp_all add: avoids_def get_nested_value_other_key)

lemma age_from_dob_other_key:
  assumes "avoids k paths"
  shows "age_from_dob env (PDict ((k, x) # d)) paths = age_from_dob env (PDict d) paths"
  using assms
  by (induction paths)
    (simp_all add: avoids_def get_nested_value_other_key split: pyval.splits option.splits)

lemma paths_avoid_dti:
  "avoids ''debt_to_income_ratio'' credit_score_paths"
  "avoids ''debt_to_income_ratio'' employment_months_paths"
  "avoids ''debt_to_income_ratio'' annual_income_paths"
  "avoids ''debt_to_income_ratio'' vehicle_year_paths"
  "avoids ''debt_to_income_ratio'' credit_history_years_paths"
  "avoids ''debt_to_income_ratio'' delinquencies_paths"
  "avoids ''debt_to_income_ratio'' loan_amount_paths"
  "avoids ''debt_to_income_ratio'' vehicle_value_paths"
  "avoids ''debt_to_income_ratio'' credit_utilization_paths"
  "avoids ''debt_to_income_ratio'' recent_inquiries_paths"
  "avoids ''debt_to_income_ratio'' address_months_paths"
  "avoids ''debt_to_income_ratio'' loan_term_months_paths"
  "avoids ''debt_to_income_ratio'' age_paths"
  "avoids ''debt_to_income_ratio'' date_of_birth_paths"
  by (simp_all add: avoids_def credit_score_paths_def employment_months_paths_def
      annual_income_paths_def vehicle_year_paths_def credit_history_years_paths_def
      delinquencies_paths_def loan_amount_paths_def vehicle_value_paths_def
      credit_utilization_paths_def recent_inquiries_paths_def address_months_paths_def
      loan_term_months_paths_def age_paths_def date_of_birth_paths_def)

lemma extractors_ignore_dti:
  "extract_credit_score env (PDict ((''debt_to_income_ratio'', x) # d)) = extract_credit_score env (PDict d)"
  "extract_employment_months env (PDict ((''debt_to_income_ratio'', x) # d)) = extract_employment_months env (PDict d)"
  "extract_annual_income env (PDict ((''debt_to_income_ratio'', x) # d)) = extract_annual_income env (PDict d)"
  "extract_credit_history_years env (PDict ((''debt_to_income_ratio'', x) # d)) = extract_credit_history_years env (PDict d)"
  "extract_delinquencies env (PDict ((''debt_to_income_ratio'', x) # d)) = extract_delinquencies env (PDict d)"
  "extract_loan_amount env (PDict ((''debt_to_income_ratio'', x) # d)) = extract_loan_amount env (PDict d)"
  "extract_vehicle_value env (PDict ((''debt_to_income_ratio'', x) # d)) = extract_vehicle_value env (PDict d)"
  "extract_credit_utilization env (PDict ((''debt_to_income_ratio'', x) # d)) = extract_credit_utilization env (PDict d)"
  "extract_recent_inquiries env (PDict ((''debt_to_income_ratio'', x) # d)) = extract_recent_inquiries env (PDict d)"
  "extract_address_months env (PDict ((''debt_to_income_ratio'', x) # d)) = extract_address_months env (PDict d)"
  "extract_loan_term_months env (PDict ((''debt_to_income_ratio'', x) # d)) = extract_loan_term_months env (PDict d)"
  unfolding extract_credit_score_def extract_employment_months_def extract_annual_income_def
    extract_credit_history_years_def extract_delinquencies_def extract_loan_amount_def
    extract_vehicle_value_def extract_credit_utilization_def extract_recent_inquiries_def
    extract_address_months_def extract_loan_term_months_def
  by (simp_all add: extract_first_other_key paths_avoid_dti)

lemma derived_ignore_dti:
  "calculate_debt_to_income_ratio env (PDict ((''debt_to_income_ratio'', x) # d))
     = calculate_debt_to_income_ratio env (PDict d)"
  "calculate_loan_to_value_ratio env (PDict ((''debt_to_income_ratio'', x) # d))
     = calculate_loan_to_value_ratio env (PDict d)"
  "calculate_vehicle_age env (PDict ((''debt_to_income_ratio'', x) # d))
     = calculate_vehicle_age env (PDict d)"
  "calculate_applicant_age env (PDict ((''debt_to_income_ratio'', x) # d))
     = calculate_applicant_age env (PDict d)"
  unfolding calculate_debt_to_income_ratio_def calculate_loan_to_value_ratio_def
    calculate_vehicle_age_def calculate_applicant_age_def extractors_ignore_dti
  by (simp_all add: find_vehicle_year_other_key direct_age_other_key age_from_dob_other_key
      paths_avoid_dti split: sum.splits option.splits)

lemma preprocess_ignores_dti:
  "preprocess_features env (PDict ((''debt_to_income_ratio'', x) # d))
     = preprocess_features env (PDict d)"
  unfolding preprocess_features_def compute_features_def extractors_ignore_dti
    derived_ignore_dti ..

lemma extract_first_none:
  assumes "list_all (\<lambda>p. get_nested_value data p = PNone) paths"
  shows "extract_first env data paths dflt = Inr dflt"
  using assms by (induction paths) simp_all

lemma dti_formula:
  assumes "extract_loan_amount env raw = Inr la"
    "extract_loan_term_months env raw = Inr lt"
    "extract_annual_income env raw = Inr ai"
  shows "calculate_debt_to_income_ratio env raw
           = (if ai \<le> 0 \<or> lt \<le> 0 \<or> \<bar>ai / 12\<bar> \<le> 1 / 2 ^ 1075 then 35
              else min (fl_div (fl_div la lt) (fl_div ai 12) * 100) 100)"
proof (cases "ai \<le> 0 \<or> lt \<le> 0")
  case True
  then show ?thesis by (auto simp: calculate_debt_to_income_ratio_def assms)
next
  case False
  then have lt: "lt \<noteq> 0" by auto
  have z: "(fl_div ai 12 = 0) = (\<bar>ai / 12\<bar> \<le> 1 / 2 ^ 1075)"
    by (rule fl_div_zero_iff)
  show ?thesis
    using False lt z
    by (simp add: calculate_debt_to_income_ratio_def assms py_truediv_def Let_def)
qed

lemma dti_raw_extractors:
  "extract_credit_score example_env dti_raw = Inr 650"
  "extract_employment_months example_env dti_raw = Inr 24"
  "extract_annual_income example_env dti_raw = Inr 50000"
  "extract_credit_history_years example_env dti_raw = Inr 7"
  "extract_delinquencies example_env dti_raw = Inr 1"
  "extract_loan_amount example_env dti_raw = Inr 25000"
  "extract_vehicle_value example_env dti_raw = Inr 30000"
  "extract_credit_utilization example_env dti_raw = Inr 30"
  "extract_recent_inquiries example_env dti_raw = Inr 1"
  "extract_address_months example_env dti_raw = Inr 24"
  "extract_loan_term_months example_env dti_raw = Inr 60"
  by (simp_all add: dti_raw_def extract_credit_score_def extract_employment_months_def
      extract_annual_income_def extract_credit_history_years_def extract_delinquencies_def
      extract_loan_amount_def extract_vehicle_value_def extract_credit_utilization_def
      extract_recent_inquiries_def extract_address_months_def extract_loan_term_months_def
      credit_score_paths_def employment_months_paths_def annual_income_paths_def
      credit_history_years_paths_def delinquencies_paths_def loan_amount_paths_def
      vehicle_value_paths_def credit_utilization_paths_def recent_inquiries_paths_def
      address_months_paths_def loan_term_months_paths_def)

lemma dti_raw_derived:
  "calculate_debt_to_income_ratio example_env dti_raw = 10"
  "calculate_loan_to_value_ratio example_env dti_raw = 250 / 3"
  "calculate_vehicle_age example_env dti_raw = 5"
  "calculate_applicant_age example_env dti_raw = 35"
proof -
  show "calculate_debt_to_income_ratio example_env dti_raw = 10"
    by (simp add: calculate_debt_to_income_ratio_def dti_raw_extractors py_truediv_def
        fl_div_normal)
  show "calculate_loan_to_value_ratio example_env dti_raw = 250 / 3"
    by (simp add: calculate_loan_to_value_ratio_def dti_raw_extractors py_truediv_def
        fl_div_normal)
  show "calculate_vehicle_age example_env dti_raw = 5"
    by (simp add: calculate_vehicle_age_def vehicle_year_paths_def dti_raw_def)
  show "calculate_applicant_age example_env dti_raw = 35"
    by (simp add: calculate_applicant_age_def age_paths_def date_of_birth_paths_def
        dti_raw_def)
qed

lemma dti_raw_normalized:
  "preprocess_features example_env dti_raw
     = Inr [650, 10, 250 / 3, 24, 50000, 5, 7, 1, 25000, 30000, 30, 1, 24, 60, 35]"
proof -
  have c: "compute_features example_env dti_raw
             = Inr (feature_dict example_env dti_raw 650 24 50000 7 1 25000 30000 30 1 24 60)"
    by (intro compute_features_ok dti_raw_extractors)
  show ?thesis
    unfolding preprocess_features_def c sum.case normalized_feature_dict dti_raw_derived
    by simp
qed

lemma tiny_income_extractors:
  "extract_credit_score example_env (PDict tiny_income_raw) = Inr 650"
  "extract_employment_months example_env (PDict tiny_income_raw) = Inr 24"
  "extract_annual_income example_env (PDict tiny_income_raw) = Inr (1 / 2 ^ 1074)"
  "extract_credit_history_years example_env (PDict tiny_income_raw) = Inr 7"
  "extract_delinquencies example_env (PDict tiny_income_raw) = Inr 1"
  "extract_loan_amount example_env (PDict tiny_income_raw) = Inr 25000"
  "extract_vehicle_value example_env (PDict tiny_income_raw) = Inr 30000"
  "extract_credit_utilization example_env (PDict tiny_income_raw) = Inr 30"
  "extract_recent_inquiries example_env (PDict tiny_income_raw) = Inr 1"
  "extract_address_months example_env (PDict tiny_income_raw) = Inr 24"
  "extract_loan_term_months example_env (PDict tiny_income_raw) = Inr 60"
  by (simp_all add: tiny_income_raw_def py_float_def
      extract_credit_score_def extract_employment_months_def
      extract_annual_income_def extract_credit_history_years_def extract_delinquencies_def
      extract_loan_amount_def extract_vehicle_value_def extract_credit_utilization_def
      extract_recent_inquiries_def extract_address_months_def extract_loan_term_months_def
      credit_score_paths_def employment_months_paths_def annual_income_paths_def
      credit_history_years_paths_def delinquencies_paths_def loan_amount_paths_def
      vehicle_value_paths_def credit_utilization_paths_def recent_inquiries_paths_def
      address_months_paths_def loan_term_months_paths_def del: power_numeral)

lemma tiny_income_derived:
  "calculate_debt_to_income_ratio example_env (PDict tiny_income_raw) = 35"
  "calculate_loan_to_value_ratio example_env (PDict tiny_income_raw) = 250 / 3"
  "calculate_vehicle_age example_env (PDict tiny_income_raw) = 5"
  "calculate_applicant_age example_env (PDict tiny_income_raw) = 35"
proof -
  have "\<bar>(1 / 2 ^ 1074) / 12\<bar> \<le> (1::real) / 2 ^ 1075"
    by (simp add: field_simps)
  then show "calculate_debt_to_income_ratio example_env (PDict tiny_income_raw) = 35"
    unfolding dti_formula [OF tiny_income_extractors(6) tiny_income_extractors(11)
        tiny_income_extractors(3)]
    by (simp del: power_numeral)
  show "calculate_loan_to_value_ratio example_env (PDict tiny_income_raw) = 250 / 3"
    by (simp add: calculate_loan_to_value_ratio_def tiny_income_extractors py_truediv_def
        fl_div_normal)
  show "calculate_vehicle_age example_env (PDict tiny_income_raw) = 5"
    by (simp add: calculate_vehicle_age_def vehicle_year_paths_def tiny_income_raw_def)
  show "calculate_applicant_age example_env (PDict tiny_income_raw) = 35"
    by (simp add: calculate_applicant_age_def age_paths_def date_of_birth_paths_def
        tiny_income_raw_def)
qed

lemma tiny_income_normalized:
  "preprocess_features example_env (PDict tiny_income_raw)
     = Inr [650, 35, 250 / 3, 24, 1 / 2 ^ 1074, 5, 7, 1, 25000, 30000, 30, 1, 24, 60, 35]"
proof -
  have c: "compute_features example_env (PDict tiny_income_raw)
             = Inr (feature_dict example_env (PDict tiny_income_raw)
                      650 24 (1 / 2 ^ 1074) 7 1 25000 30000 30 1 24 60)"
    by (intro compute_features_ok tiny_income_extractors)
  have m: "max 0 (min 1000000 ((1::real) / 2 ^ 1074)) = 1 / 2 ^ 1074"
    by (simp add: min_def max_def field_simps)
  show ?thesis
    unfolding preprocess_features_def c sum.case normalized_feature_dict tiny_income_derived m
    by simp
qed

lemma big_raw_numeric: "numeric_raw big_raw"
  by (simp add: numeric_raw_def direct_paths_def big_raw_def is_numeric_def
      credit_score_paths_def employment_months_paths_def annual_income_paths_def
      credit_history_years_paths_def delinquencies_paths_def loan_amount_paths_def
      vehicle_value_paths_def credit_utilization_paths_def recent_inquiries_paths_def
      address_months_paths_def loan_term_months_paths_def del: power_numeral)

lemma big_raw_overflow: "extract_credit_score example_env big_raw = Inl OverflowError"
proof -
  have "(2::int) ^ 1024 - 2 ^ 970 \<le> \<bar>10 ^ 309\<bar>" by simp
  then have "py_float_of_int (10 ^ 309) = Inl OverflowError"
    unfolding py_float_of_int_def by (simp only: if_True)
  then show ?thesis
    by (simp add: extract_credit_score_def credit_score_paths_def big_raw_def py_float_def
        del: power_numeral)
qed

lemma nth_1_normalized:
  assumes "preprocess_features env raw = Inr v"
  shows "\<exists>la lt ai. extract_loan_amount env raw = Inr la
           \<and> extract_loan_term_months env raw = Inr lt
           \<and> extract_annual_income env raw = Inr ai
           \<and> v ! 1 = max 0 (min 100 (calculate_debt_to_income_ratio env raw))"
proof -
  from assms obtain fs where c: "compute_features env raw = Inr fs"
    by (auto simp: preprocess_features_def split: sum.splits)
  from compute_features_Inr [OF c] obtain cs em ai chy dl la vv cu ri am lt
    where e: "extract_loan_amount env raw = Inr la"
      "extract_loan_term_months env raw = Inr lt"
      "extract_annual_income env raw = Inr ai"
    and fs: "fs = feature_dict env raw cs em ai chy dl la vv cu ri am lt"
    by blast
  have "preprocess_features env raw
          = Inr (map (\<lambda>name.
                   (let v = (case map_of (feature_dict env raw cs em ai chy dl la vv cu ri am lt) name of
                      Some x \<Rightarrow> x | None \<Rightarrow> 0.0)
                    in normalize_feature name v)) feature_names)"
    unfolding preprocess_features_def c fs sum.case ..
  then have "v ! 1 = max 0 (min 100 (calculate_debt_to_income_ratio env raw))"
    unfolding normalized_feature_dict assms by simp
  with e show ?thesis by blast
qed

lemma example_raw_valid: "valid_raw example_raw"
  by (simp add: valid_raw_def direct_paths_def example_raw_def convertible_def
      credit_score_paths_def employment_months_paths_def annual_income_paths_def
      credit_history_years_paths_def delinquencies_paths_def loan_amount_paths_def
      vehicle_value_paths_def credit_utilization_paths_def recent_inquiries_paths_def
      address_months_paths_def loan_term_months_paths_def)

lemma example_raw_extractors:
  "extract_credit_score example_env example_raw = Inr 900"
  "extract_employment_months example_env example_raw = Inr 24"
  "extract_annual_income example_env example_raw = Inr 60000"
  "extract_credit_history_years example_env example_raw = Inr 7"
  "extract_delinquencies example_env example_raw = Inr 1"
  "extract_loan_amount example_env example_raw = Inr 24000"
  "extract_vehicle_value example_env example_raw = Inr 30000"
  "extract_credit_utilization example_env example_raw = Inr 30"
  "extract_recent_inquiries example_env example_raw = Inr 1"
  "extract_address_months example_env example_raw = Inr 24"
  "extract_loan_term_months example_env example_raw = Inr 6"
  by (simp_all add: example_raw_def py_float_def py_float_of_int_def
      extract_credit_score_def extract_employment_months_def
      extract_annual_income_def extract_credit_history_years_def extract_delinquencies_def
      extract_loan_amount_def extract_vehicle_value_def extract_credit_utilization_def
      extract_recent_inquiries_def extract_address_months_def extract_loan_term_months_def
      credit_score_paths_def employment_months_paths_def annual_income_paths_def
      credit_history_years_paths_def delinquencies_paths_def loan_amount_paths_def
      vehicle_value_paths_def credit_utilization_paths_def recent_inquiries_paths_def
      address_months_paths_def loan_term_months_paths_def)

lemma example_raw_derived:
  "calculate_debt_to_income_ratio example_env example_raw = 80"
  "calculate_loan_to_value_ratio example_env example_raw = 80"
  "calculate_vehicle_age example_env example_raw = 4"
  "calculate_applicant_age example_env example_raw = 33"
proof -
  show "calculate_debt_to_income_ratio example_env example_raw = 80"
    by (simp add: calculate_debt_to_income_ratio_def example_raw_extractors py_truediv_def
        fl_div_normal)
  show "calculate_loan_to_value_ratio example_env example_raw = 80"
    by (simp add: calculate_loan_to_value_ratio_def example_raw_extractors py_truediv_def
        fl_div_normal)
  show "calculate_vehicle_age example_env example_raw = 4"
    by (simp add: calculate_vehicle_age_def vehicle_year_paths_def example_raw_def
        py_int_def py_float_of_int_def example_env_def)
  show "calculate_applicant_age example_env example_raw = 33"
    by (simp add: calculate_applicant_age_def age_paths_def date_of_birth_paths_def
        example_raw_def parse_dob_def age_on_def example_env_def)
qed

lemma example_raw_normalized:
  "preprocess_features example_env example_raw
     = Inr [850, 80, 80, 24, 60000, 4, 7, 1, 24000, 30000, 30, 1, 24, 12, 33]"
proof -
  have c: "compute_features example_env example_raw
             = Inr (feature_dict example_env example_raw 900 24 60000 7 1 24000 30000 30 1 24 6)"
    by (intro compute_features_ok example_raw_extractors)
  show ?thesis
    unfolding preprocess_features_def c sum.case normalized_feature_dict example_raw_derived
    by simp
qed

subsection \<open>Scoring engine\<close>

text \<open>
  C3. The fallback rule-based scorer, which is the only model of the registry when no
  artifact could be loaded (no model file, or none that deserializes), gives the probability of the specification's formula: base
  0.10, plus the credit-score, debt-to-income and loan-to-value increments, capped at
  0.95. For credit score 550, debt-to-income ratio 55 and loan-to-value ratio 110 a
  scoring call returns probability 0.85 and the tier high.
\<close>

theorem fallback_scorer_formula:
  assumes "length features = 15"
      and "list_all (\<lambda>f. snd f = None) model_files"
      and "models svc = models (load_models \<lparr>models = [], prediction_count = 0\<rparr> model_files)"
  shows "model_output MockModel features
           = spec_fallback_probability (features ! 0) (features ! 1) (features ! 2)
       \<and> (\<exists>r svc'. predict svc features None = Inr (r, svc')
             \<and> fraud_probability r
                 = spec_fallback_probability (features ! 0) (features ! 1) (features ! 2)
             \<and> (features ! 0 = 550 \<and> features ! 1 = 55 \<and> features ! 2 = 110
                  \<longrightarrow> fraud_probability r = 0.85 \<and> risk_tier r = HIGH))"
proof -
  let ?p = "spec_fallback_probability (features ! 0) (features ! 1) (features ! 2)"
  have m: "models svc = [(default_model_version, MockModel)]"
    using assms(3) load_models_nothing_loaded [OF assms(2), of 0] by simp
  have f: "mock_fraud_prob features = ?p"
    using assms(1) by (simp add: mock_fraud_prob_spec)
  obtain r svc' where p: "predict svc features None = Inr (r, svc')"
    and fp: "fraud_probability r = mock_fraud_prob features"
    and rt: "risk_tier r = get_risk_tier (mock_fraud_prob features)"
    using predict_mock_only [OF m assms(1)] by simp
  have ex: "fraud_probability r = 0.85 \<and> risk_tier r = HIGH"
    if "features ! 0 = 550 \<and> features ! 1 = 55 \<and> features ! 2 = 110"
  proof -
    have "?p = 0.85"
      using that
      by (simp add: spec_fallback_probability_def spec_credit_increment_def
          spec_dti_increment_def spec_ltv_increment_def)
    then have "mock_fraud_prob features = 0.85" using f by simp
    then show ?thesis using fp rt by (simp add: get_risk_tier_def)
  qed
  have "model_output MockModel features = ?p"
    using f by (simp add: model_output_mock)
  moreover have "\<exists>r svc'. predict svc features None = Inr (r, svc')
             \<and> fraud_probability r = ?p
             \<and> (features ! 0 = 550 \<and> features ! 1 = 55 \<and> features ! 2 = 110
                  \<longrightarrow> fraud_probability r = 0.85 \<and> risk_tier r = HIGH)"
  proof (intro exI conjI)
    show "predict svc features None = Inr (r, svc')" by (rule p)
    show "fraud_probability r = ?p" using fp f by simp
    show "features ! 0 = 550 \<and> features ! 1 = 55 \<and> features ! 2 = 110
            \<longrightarrow> fraud_probability r = 0.85 \<and> risk_tier r = HIGH"
      using ex by (rule impI)
  qed
  ultimately show ?thesis by (rule conjI)
qed

theorem fallback_scorer_formula_witness:
  "length example_features = 15
   \<and> list_all (\<lambda>f. snd f = None) [(''model_broken'', None :: model option)]
   \<and> models mock_service
       = models (load_models \<lparr>models = [], prediction_count = 0\<rparr> [(''model_broken'', None)])
   \<and> example_features ! 0 = 550 \<and> example_features ! 1 = 55 \<and> example_features ! 2 = 110
   \<and> model_output MockModel example_features = 0.85
   \<and> \<not> isl (predict mock_service example_features None)
   \<and> fraud_probability (fst (projr (predict mock_service example_features None))) = 0.85
   \<and> risk_tier (fst (projr (predict mock_service example_features None))) = HIGH"
proof -
  have a: "length example_features = 15" by (simp add: example_features_def)
  have l: "list_all (\<lambda>f. snd f = None) [(''model_broken'', None :: model option)]"
    by simp
  have b: "models mock_service
       = models (load_models \<lparr>models = [], prediction_count = 0\<rparr> [(''model_broken'', None)])"
    by (simp add: mock_service_def load_models_def load_model_file_def create_mock_model_def
        default_model_version_def Let_def)
  have c: "example_features ! 0 = 550 \<and> example_features ! 1 = 55 \<and> example_features ! 2 = 110"
    by (simp add: example_features_def)
  have e: "spec_fallback_probability 550 55 110 = 0.85"
    by (simp add: spec_fallback_probability_def spec_credit_increment_def
        spec_dti_increment_def spec_ltv_increment_def)
  from fallback_scorer_formula [OF a l b] c e
  obtain r svc' where p: "predict mock_service example_features None = Inr (r, svc')"
    and q: "fraud_probability r = 0.85" "risk_tier r = HIGH"
    and m: "model_output MockModel example_features = 0.85"
    by auto
  show ?thesis using a l b c m p q by simp
qed

text \<open>
  C6. For every scoring call that returns, the confidence score is
  \<open>0.7 * (1 - 2 * |p - 0.5|) + 0.3 * feature_quality\<close> clamped to \<open>[0.1, 0.99]\<close>, where
  \<open>p\<close> is the returned probability and \<open>feature_quality\<close> starts at 1.0, is multiplied
  by 0.8 when the credit score (feature 0) is outside \<open>[300, 850]\<close> and by 0.9 when the
  annual income (feature 4) is outside \<open>[10000, 500000]\<close>. With probability 0.85 and both
  features in range the confidence is 0.51.
\<close>

theorem confidence_score_formula:
  assumes "predict svc features version = Inr (r, svc')"
  shows "confidence_score r
           = spec_confidence (fraud_probability r) (features ! 0) (features ! 4)
       \<and> (fraud_probability r = 0.85
            \<and> 300 \<le> features ! 0 \<and> features ! 0 \<le> 850
            \<and> 10000 \<le> features ! 4 \<and> features ! 4 \<le> 500000
            \<longrightarrow> confidence_score r = 0.51)"
proof -
  from predict_Inr_fields [OF assms]
  have l: "length features = 15"
    and c: "confidence_score r = calculate_confidence (fraud_probability r) features"
    by simp_all
  have s: "confidence_score r
             = spec_confidence (fraud_probability r) (features ! 0) (features ! 4)"
    using c l by (simp add: calculate_confidence_spec)
  have e: "spec_confidence q cs inc = 0.51"
    if "q = 0.85" "300 \<le> cs \<and> cs \<le> 850 \<and> 10000 \<le> inc \<and> inc \<le> 500000"
    for q cs inc :: real
    using that by (simp add: spec_confidence_def spec_feature_quality_def)
  have "confidence_score r = 0.51"
    if h: "fraud_probability r = 0.85
            \<and> 300 \<le> features ! 0 \<and> features ! 0 \<le> 850
            \<and> 10000 \<le> features ! 4 \<and> features ! 4 \<le> 500000"
  proof -
    from h have hp: "fraud_probability r = 0.85" by (rule conjunct1)
    from h have hb: "300 \<le> features ! 0 \<and> features ! 0 \<le> 850
            \<and> 10000 \<le> features ! 4 \<and> features ! 4 \<le> 500000" by (rule conjunct2)
    have "spec_confidence (fraud_probability r) (features ! 0) (features ! 4) = 0.51"
      using hp hb by (rule e)
    then show ?thesis by (simp only: s)
  qed
  then show ?thesis using s by blast
qed

theorem confidence_score_formula_witness:
  "predict mock_service example_features None =
     Inr (\<lparr>fraud_probability = 0.85, confidence_score = 0.51, risk_tier = HIGH,
            feature_importance = get_feature_importance MockModel example_features,
            model_version = ''v1.0.0''\<rparr>,
          \<lparr>models = [(''v1.0.0'', MockModel)], prediction_count = 1\<rparr>)
   \<and> 300 \<le> example_features ! 0 \<and> example_features ! 0 \<le> 850
   \<and> 10000 \<le> example_features ! 4 \<and> example_features ! 4 \<le> 500000
   \<and> spec_confidence 0.85 (example_features ! 0) (example_features ! 4) = 0.51"
  using confidence_score_formula [OF predict_mock_example] predict_mock_example
  by (simp add: example_features_def)

text \<open>
  C7. The risk tier of a probability \<open>p\<close> is low when \<open>p < 0.30\<close>, medium when
  \<open>0.30 \<le> p < 0.70\<close> and high when \<open>p \<ge> 0.70\<close>; 0.2999 is low, 0.30 medium, 0.6999
  medium and 0.70 high.
\<close>

theorem risk_tier_thresholds:
  "(p < 0.30 \<longrightarrow> get_risk_tier p = LOW)
   \<and> (0.30 \<le> p \<and> p < 0.70 \<longrightarrow> get_risk_tier p = MEDIUM)
   \<and> (0.70 \<le> p \<longrightarrow> get_risk_tier p = HIGH)
   \<and> get_risk_tier 0.2999 = LOW \<and> get_risk_tier 0.30 = MEDIUM
   \<and> get_risk_tier 0.6999 = MEDIUM \<and> get_risk_tier 0.70 = HIGH"
  by (simp add: get_risk_tier_def)

theorem risk_tier_thresholds_witness:
  "((0.1::real) < 0.30 \<and> get_risk_tier 0.1 = LOW)
   \<and> ((0.30::real) \<le> 0.5 \<and> (0.5::real) < 0.70 \<and> get_risk_tier 0.5 = MEDIUM)
   \<and> ((0.70::real) \<le> 0.9 \<and> get_risk_tier 0.9 = HIGH)"
  using risk_tier_thresholds [of "0.1"] risk_tier_thresholds [of "0.5"]
    risk_tier_thresholds [of "0.9"]
  by simp

text \<open>
  C8. On a non-empty registry a scoring call with no version or with \<open>''latest''\<close>
  resolves to the greatest version key in the order of strings, and scores with the
  model stored under it; the order is the lexicographic one, in which \<open>''v1.10.0''\<close>
  comes before \<open>''v1.2.0''\<close>. A call with an explicit version that is not a key of the
  registry fails with the not-found error and returns no prediction.
\<close>

theorem latest_version_resolution:
  assumes "models svc \<noteq> []"
  shows "(version = None \<or> version = Some ''latest'' \<longrightarrow>
           get_latest_model_version svc = Inr (Max (set (map fst (models svc))))
         \<and> (\<forall>k \<in> set (map fst (models svc)). k \<le> Max (set (map fst (models svc))))
         \<and> (length features = 15 \<longrightarrow>
              (\<exists>r svc' m. predict svc features version = Inr (r, svc')
                 \<and> model_version r = Max (set (map fst (models svc)))
                 \<and> map_of (models svc) (model_version r) = Some m
                 \<and> fraud_probability r = model_output m features)))
       \<and> (\<forall>v. version = Some v \<and> v \<noteq> ''latest'' \<and> v \<notin> set (map fst (models svc)) \<longrightarrow>
             predict svc features version = Inl (ModelVersionNotFound v))
       \<and> ''v1.10.0'' < ''v1.2.0''
       \<and> get_latest_model_version two_version_service = Inr ''v1.2.0''"
proof -
  have a: "version = None \<or> version = Some ''latest'' \<longrightarrow>
           get_latest_model_version svc = Inr (Max (set (map fst (models svc))))
         \<and> (\<forall>k \<in> set (map fst (models svc)). k \<le> Max (set (map fst (models svc))))
         \<and> (length features = 15 \<longrightarrow>
              (\<exists>r svc' m. predict svc features version = Inr (r, svc')
                 \<and> model_version r = Max (set (map fst (models svc)))
                 \<and> map_of (models svc) (model_version r) = Some m
                 \<and> fraud_probability r = model_output m features))"
  proof (intro impI conjI)
    show "get_latest_model_version svc = Inr (Max (set (map fst (models svc))))"
      using assms by (rule latest_is_Max)
    show "\<forall>k \<in> set (map fst (models svc)). k \<le> Max (set (map fst (models svc)))"
      by simp
    assume "version = None \<or> version = Some ''latest''" "length features = 15"
    with assms show "\<exists>r svc' m. predict svc features version = Inr (r, svc')
                 \<and> model_version r = Max (set (map fst (models svc)))
                 \<and> map_of (models svc) (model_version r) = Some m
                 \<and> fraud_probability r = model_output m features"
      by (rule predict_latest_exists)
  qed
  have b: "\<forall>v. version = Some v \<and> v \<noteq> ''latest'' \<and> v \<notin> set (map fst (models svc)) \<longrightarrow>
             predict svc features version = Inl (ModelVersionNotFound v)"
  proof (intro allI impI)
    fix v
    assume h: "version = Some v \<and> v \<noteq> ''latest'' \<and> v \<notin> set (map fst (models svc))"
    then have "predict svc features (Some v) = Inl (ModelVersionNotFound v)"
      by (intro predict_not_found) simp_all
    with h show "predict svc features version = Inl (ModelVersionNotFound v)"
      by simp
  qed
  from a b string_order_example two_version_latest show ?thesis
    by (intro conjI)
qed

theorem latest_version_resolution_witness:
  "models two_version_service \<noteq> []
   \<and> ''v1.0.0'' \<noteq> ''latest'' \<and> ''v1.0.0'' \<notin> set (map fst (models two_version_service))
   \<and> length example_features = 15
   \<and> predict two_version_service example_features (Some ''v1.0.0'')
       = Inl (ModelVersionNotFound ''v1.0.0'')
   \<and> get_latest_model_version two_version_service
       = Inr (Max (set (map fst (models two_version_service))))
   \<and> \<not> isl (predict two_version_service example_features None)
   \<and> model_version (fst (projr (predict two_version_service example_features None)))
       = ''v1.2.0''"
proof -
  have a: "models two_version_service \<noteq> []" by (simp add: two_version_service_def)
  have b: "''v1.0.0'' \<noteq> ''latest'' \<and> ''v1.0.0'' \<notin> set (map fst (models two_version_service))"
    by (simp add: two_version_service_def)
  have c: "length example_features = 15" by (simp add: example_features_def)
  note t1 = latest_version_resolution [OF a, of "Some ''v1.0.0''" example_features]
  note t2 = latest_version_resolution [OF a, of None example_features]
  have d: "predict two_version_service example_features (Some ''v1.0.0'')
       = Inl (ModelVersionNotFound ''v1.0.0'')"
    using t1 b by blast
  have e: "get_latest_model_version two_version_service
       = Inr (Max (set (map fst (models two_version_service))))"
    using t2 by blast
  have f: "get_latest_model_version two_version_service = Inr ''v1.2.0''"
    using t2 by blast
  have g: "Max (set (map fst (models two_version_service))) = ''v1.2.0''"
    using e f by simp
  have "\<exists>r svc' m. predict two_version_service example_features None = Inr (r, svc')
                 \<and> model_version r = Max (set (map fst (models two_version_service)))
                 \<and> map_of (models two_version_service) (model_version r) = Some m
                 \<and> fraud_probability r = model_output m example_features"
    using t2 c by blast
  then obtain r svc' where
    h: "predict two_version_service example_features None = Inr (r, svc')"
      "model_version r = ''v1.2.0''"
    unfolding g by blast
  have i: "\<not> isl (predict two_version_service example_features None)"
    by (simp add: h(1))
  have j: "model_version (fst (projr (predict two_version_service example_features None)))
       = ''v1.2.0''"
    by (simp add: h)
  from a b c d e i j show ?thesis by (intro conjI) simp_all
qed

subsection \<open>Training orchestrator\<close>

text \<open>
  C1. The claim is that a job in a terminal state is never changed again, and that
  after a cancel no later write of the run task is applied. The guarded update of
  \<^verbatim>\<open>cancel_training_job\<close> does what is claimed of it: on a terminal job it matches no
  row and returns false (\<open>cancel_terminal_job_is_noop\<close>), on a queued or running job it
  sets the status to cancelled and returns true (\<open>cancel_active_job\<close>). The writes of
  the run task carry no such guard (\<open>update_job_status_unguarded\<close>) and the task never
  looks at the status. Evaluated on a job whose run is cancelled after its fourth
  write: the cancel returns true and the job is cancelled, and the run then moves its
  progress from 30 to 95 and its status to completed, with metrics and model path,
  and registers the model.
\<close>

theorem cancelled_job_is_completed_by_run:
  "cancel_training_job
     (foldl (apply_write ''job-1'') job_service
        (take 4 (run_writes 100 [0, 10, 20] example_run))) ''job-1''
     = (True,
        \<lparr>training_jobs =
           [\<lparr>job_id = ''job-1'', status = ''cancelled'',
             status_message = Some ''Cancelled by user'', progress = 30,
             metrics = None, model_path = None\<rparr>],
         model_registry = [], running_jobs = []\<rparr>)
   \<and> terminal ''cancelled''
   \<and> run_with_cancel_after 4 job_service ''job-1'' 100 [0, 10, 20] example_run
     = (True,
        \<lparr>training_jobs =
           [\<lparr>job_id = ''job-1'', status = ''completed'',
             status_message = Some ''Training completed successfully'', progress = 95,
             metrics = Some example_metrics,
             model_path = Some ''models/model_job-1.joblib''\<rparr>],
         model_registry =
           [\<lparr>model_id = ''model-1'', entry_status = ''ready'', is_production = False,
             deployed_at = None, deployment_config = None\<rparr>],
         running_jobs = []\<rparr>)"
proof -
  have a: "cancel_training_job
     (foldl (apply_write ''job-1'') job_service
        (take 4 (run_writes 100 [0, 10, 20] example_run))) ''job-1''
     = (True,
        \<lparr>training_jobs =
           [\<lparr>job_id = ''job-1'', status = ''cancelled'',
             status_message = Some ''Cancelled by user'', progress = 30,
             metrics = None, model_path = None\<rparr>],
         model_registry = [], running_jobs = []\<rparr>)"
    unfolding example_before_cancel
    by (simp add: cancel_training_job_def Let_def rows_matched_def sql_update_def
        cancellable_def)
  have b: "terminal ''cancelled''" by (simp add: terminal_def)
  have c: "run_with_cancel_after 4 job_service ''job-1'' 100 [0, 10, 20] example_run
     = (True,
        \<lparr>training_jobs =
           [\<lparr>job_id = ''job-1'', status = ''completed'',
             status_message = Some ''Training completed successfully'', progress = 95,
             metrics = Some example_metrics,
             model_path = Some ''models/model_job-1.joblib''\<rparr>],
         model_registry =
           [\<lparr>model_id = ''model-1'', entry_status = ''ready'', is_production = False,
             deployed_at = None, deployment_config = None\<rparr>],
         running_jobs = []\<rparr>)"
    unfolding run_with_cancel_after_def Let_def a [unfolded example_before_cancel]
      example_before_cancel
    unfolding example_run_writes
    by (simp add: update_job_status_def update_job_progress_def sql_update_def finish_run_def
        cancel_training_job_def Let_def rows_matched_def cancellable_def
        register_result_def create_model_registry_entry_def example_run_def)
  from a b c show ?thesis by (intro conjI)
qed

text \<open>
  C4. After a deploy that returns true, on a registry whose model ids are unique,
  exactly one entry has \<open>is_production\<close> set, namely the entry with the deployed
  model id, and the flag is cleared on every other entry.
\<close>

theorem deploy_exactly_one_production:
  assumes "distinct (map model_id (model_registry svc))"
      and "deploy_model svc mid cfg now = (True, svc')"
  shows "length (filter is_production (model_registry svc')) = 1
       \<and> (\<forall>e \<in> set (model_registry svc'). is_production e \<longleftrightarrow> model_id e = mid)
       \<and> map model_id (model_registry svc') = map model_id (model_registry svc)"
proof -
  let ?g = "\<lambda>e. if model_id e = mid
       then e\<lparr>is_production := True, deployed_at := Some now,
                             deployment_config := Some cfg, entry_status := ''deployed''\<rparr>
       else e\<lparr>is_production := False\<rparr>"
  let ?reg = "model_registry svc"
  from assms(2) have n: "rows_matched (\<lambda>e. model_id e = mid) ?reg \<noteq> 0"
    and r: "model_registry svc' = map ?g ?reg"
    by (auto simp: deploy_model_eq)
  have ip: "is_production (?g e) = (model_id e = mid)" for e :: ModelRegistryEntry by simp
  have mi: "model_id (?g e) = model_id e" for e :: ModelRegistryEntry by simp
  have "filter is_production (map ?g ?reg) = map ?g (filter (\<lambda>e. model_id e = mid) ?reg)"
    unfolding filter_map comp_def ip ..
  then have "length (filter is_production (model_registry svc'))
               = length (filter (\<lambda>e. model_id e = mid) ?reg)"
    unfolding r by simp
  moreover have "length (filter (\<lambda>e. model_id e = mid) ?reg) \<le> 1"
    using assms(1) by (rule distinct_key_filter_le_1)
  moreover have "length (filter (\<lambda>e. model_id e = mid) ?reg) \<noteq> 0"
    using n by (simp add: rows_matched_def)
  ultimately have one: "length (filter is_production (model_registry svc')) = 1"
    by linarith
  have all: "\<forall>e \<in> set (model_registry svc'). is_production e \<longleftrightarrow> model_id e = mid"
    unfolding r by auto
  have ids: "map model_id (model_registry svc') = map model_id ?reg"
    unfolding r map_map comp_def mi ..
  from one all ids show ?thesis by (intro conjI)
qed

theorem deploy_exactly_one_production_witness:
  "distinct (map model_id (model_registry registry_service))
   \<and> deploy_model registry_service ''m2'' [] 7
       = (True, snd (deploy_model registry_service ''m2'' [] 7))
   \<and> length (filter is_production
         (model_registry (snd (deploy_model registry_service ''m2'' [] 7)))) = 1
   \<and> map is_production (model_registry (snd (deploy_model registry_service ''m2'' [] 7)))
       = [False, True]"
proof -
  have a: "distinct (map model_id (model_registry registry_service))"
    by (simp add: registry_service_def example_registry_def)
  have b: "deploy_model registry_service ''m2'' [] 7
       = (True, snd (deploy_model registry_service ''m2'' [] 7))"
    by (simp add: deploy_model_eq rows_matched_def registry_service_def example_registry_def)
  have c: "map is_production (model_registry (snd (deploy_model registry_service ''m2'' [] 7)))
       = [False, True]"
    by (simp add: deploy_model_eq registry_service_def example_registry_def)
  from deploy_exactly_one_production [OF a b] a b c show ?thesis by simp
qed

text \<open>
  C10. A deploy with a model id that no registry entry has returns false, and has
  still cleared \<open>is_production\<close> on every entry: afterwards no entry is in production,
  and the registry differs from the one before whenever an entry was in production.
\<close>

theorem deploy_unknown_model_clears_all:
  assumes "mid \<notin> set (map model_id (model_registry svc))"
  shows "fst (deploy_model svc mid cfg now) = False
       \<and> (\<forall>e \<in> set (model_registry (snd (deploy_model svc mid cfg now))). \<not> is_production e)
       \<and> model_registry (snd (deploy_model svc mid cfg now))
           = map (\<lambda>e. e\<lparr>is_production := False\<rparr>) (model_registry svc)
       \<and> ((\<exists>e \<in> set (model_registry svc). is_production e) \<longrightarrow>
             model_registry (snd (deploy_model svc mid cfg now)) \<noteq> model_registry svc)"
proof -
  let ?reg = "model_registry svc"
  let ?reg' = "model_registry (snd (deploy_model svc mid cfg now))"
  have none: "\<forall>e \<in> set ?reg. model_id e \<noteq> mid" using assms by auto
  then have f: "filter (\<lambda>e. model_id e = mid) ?reg = []"
    by (simp add: filter_empty_conv)
  have r: "?reg' = map (\<lambda>e. e\<lparr>is_production := False\<rparr>) ?reg"
    using none by (simp add: deploy_model_eq)
  have a: "fst (deploy_model svc mid cfg now) = False"
    using f by (simp add: deploy_model_eq rows_matched_def)
  have b: "\<forall>e \<in> set ?reg'. \<not> is_production e"
    unfolding r by simp
  have c: "?reg' \<noteq> ?reg" if "\<exists>e \<in> set ?reg. is_production e"
  proof
    assume "?reg' = ?reg"
    then have "\<forall>e \<in> set ?reg. \<not> is_production e" using b by simp
    with that show False by blast
  qed
  from a b r c show ?thesis by blast
qed

theorem deploy_unknown_model_clears_all_witness:
  "''m9'' \<notin> set (map model_id (model_registry registry_service))
   \<and> list_ex is_production (model_registry registry_service)
   \<and> fst (deploy_model registry_service ''m9'' [] 7) = False
   \<and> map is_production (model_registry (snd (deploy_model registry_service ''m9'' [] 7)))
       = [False, False]
   \<and> model_registry (snd (deploy_model registry_service ''m9'' [] 7))
       \<noteq> model_registry registry_service"
proof -
  have a: "''m9'' \<notin> set (map model_id (model_registry registry_service))"
    by (simp add: registry_service_def example_registry_def)
  have b: "list_ex is_production (model_registry registry_service)"
    by (simp add: registry_service_def example_registry_def)
  then have b': "\<exists>e \<in> set (model_registry registry_service). is_production e"
    by (simp add: list_ex_iff)
  note t = deploy_unknown_model_clears_all [OF a, of "[]" 7]
  have c: "fst (deploy_model registry_service ''m9'' [] 7) = False"
    using t by blast
  have r: "model_registry (snd (deploy_model registry_service ''m9'' [] 7))
           = map (\<lambda>e. e\<lparr>is_production := False\<rparr>) (model_registry registry_service)"
    using t by blast
  have d: "map is_production (model_registry (snd (deploy_model registry_service ''m9'' [] 7)))
       = [False, False]"
    unfolding r by (simp add: registry_service_def example_registry_def)
  have e: "model_registry (snd (deploy_model registry_service ''m9'' [] 7))
       \<noteq> model_registry registry_service"
    using t b' by blast
  from a b c d e show ?thesis by (intro conjI)
qed


text \<open>
  C9, as the specification states it: each preset hyperparameter is the explicit value
  when one is supplied and the preset's value otherwise. This fails: with the preset
  \<open>fast\<close> and only \<open>learning_rate\<close> supplied, training runs with 300 boosting rounds
  where the preset has 100, and without the preset's \<open>num_leaves\<close>.
\<close>

theorem explicit_hyperparameters_drop_preset:
  "used_hyperparameter (prepare_training_config override_request) ''learning_rate''
     = Some (RealV 0.2)
   \<and> spec_hyperparameter (prepare_training_config override_request) ''num_boost_round''
     = Some (IntV 100)
   \<and> used_hyperparameter (prepare_training_config override_request) ''num_boost_round''
     = Some (IntV 300)
   \<and> spec_hyperparameter (prepare_training_config override_request) ''num_leaves''
     = Some (IntV 31)
   \<and> used_hyperparameter (prepare_training_config override_request) ''num_leaves'' = None
   \<and> used_hyperparameter (prepare_training_config override_request) ''num_boost_round''
       \<noteq> spec_hyperparameter (prepare_training_config override_request) ''num_boost_round''"
  by (simp add: used_hyperparameter_def train_lightgbm_params_def chosen_hyperparameters_def
      prepare_training_config_def override_request_def spec_hyperparameter_def
      training_presets_def base_params_def dict_merge_def dict_pop_def Let_def)

text \<open>
  C9, amended. The preset is used only when no explicit hyperparameters are supplied
  (and its name is one of the three): then each of the seven preset hyperparameters
  has the preset's value. As soon as explicit hyperparameters are supplied (or the
  preset name is unknown) the preset is dropped as a whole: a name has its explicit
  value if supplied; otherwise \<open>num_boost_round\<close> is 300, \<open>early_stopping_rounds\<close> is 20
  and the other names are not passed to the booster.
\<close>

theorem hyperparameter_selection:
  assumes "distinct (map fst (hyperparameters config))"
      and "k \<in> set preset_hyperparameter_names"
  shows "(hyperparameters config = [] \<and> map_of training_presets (preset config) = Some table
            \<longrightarrow> used_hyperparameter config k = map_of table k
                \<and> used_hyperparameter config k = spec_hyperparameter config k
                \<and> used_hyperparameter config k \<noteq> None)
       \<and> (hyperparameters config \<noteq> [] \<or> map_of training_presets (preset config) = None
            \<longrightarrow> used_hyperparameter config k
                  = (case map_of (hyperparameters config) k of
                       Some v \<Rightarrow> Some v
                     | None \<Rightarrow>
                         if k = ''num_boost_round'' then Some (IntV 300)
                         else if k = ''early_stopping_rounds'' then Some (IntV 20)
                         else None))"
proof -
  have d: "hp_default k
             = (if k = ''num_boost_round'' then Some (IntV 300)
                else if k = ''early_stopping_rounds'' then Some (IntV 20)
                else None)"
    using assms(2)
    by (auto simp: hp_default_def base_params_def preset_hyperparameter_names_def)
  have a: "used_hyperparameter config k = map_of table k
                \<and> used_hyperparameter config k = spec_hyperparameter config k
                \<and> used_hyperparameter config k \<noteq> None"
    if h: "hyperparameters config = [] \<and> map_of training_presets (preset config) = Some table"
  proof -
    from h have c: "chosen_hyperparameters config = table"
      by (simp add: chosen_hyperparameters_def)
    from h have dt: "distinct (map fst table)" using presets_distinct by blast
    have s: "map_of table k \<noteq> None"
      using h assms(2)
      by (auto simp: training_presets_def preset_hyperparameter_names_def split: if_splits)
    have u: "used_hyperparameter config k = map_of table k"
      using used_hyperparameter_eq [of config k] c dt s by (auto split: option.splits)
    have sp: "spec_hyperparameter config k = map_of table k"
      using h by (simp add: spec_hyperparameter_def)
    from u sp s show ?thesis by simp
  qed
  have b: "used_hyperparameter config k
                  = (case map_of (hyperparameters config) k of
                       Some v \<Rightarrow> Some v
                     | None \<Rightarrow>
                         if k = ''num_boost_round'' then Some (IntV 300)
                         else if k = ''early_stopping_rounds'' then Some (IntV 20)
                         else None)"
    if h: "hyperparameters config \<noteq> [] \<or> map_of training_presets (preset config) = None"
  proof -
    from h have c: "chosen_hyperparameters config = hyperparameters config"
      by (auto simp: chosen_hyperparameters_def)
    show ?thesis
      using used_hyperparameter_eq [of config k] assms(1) unfolding c d by simp
  qed
  from a b show ?thesis by blast
qed

theorem hyperparameter_selection_witness:
  "distinct (map fst (hyperparameters (prepare_training_config preset_request)))
   \<and> ''num_leaves'' \<in> set preset_hyperparameter_names
   \<and> hyperparameters (prepare_training_config preset_request) = []
   \<and> map_of training_presets (preset (prepare_training_config preset_request))
       = Some (the (map_of training_presets ''thorough''))
   \<and> used_hyperparameter (prepare_training_config preset_request) ''num_leaves''
       = Some (IntV 127)
   \<and> distinct (map fst (hyperparameters (prepare_training_config override_request)))
   \<and> hyperparameters (prepare_training_config override_request) \<noteq> []
   \<and> used_hyperparameter (prepare_training_config override_request) ''num_leaves'' = None"
proof -
  let ?c1 = "prepare_training_config preset_request"
  let ?c2 = "prepare_training_config override_request"
  have a: "distinct (map fst (hyperparameters ?c1))"
    by (simp add: prepare_training_config_def preset_request_def)
  have b: "''num_leaves'' \<in> set preset_hyperparameter_names"
    by (simp add: preset_hyperparameter_names_def)
  have c: "hyperparameters ?c1 = []"
    by (simp add: prepare_training_config_def preset_request_def)
  have d: "map_of training_presets (preset ?c1) = Some (the (map_of training_presets ''thorough''))"
    by (simp add: prepare_training_config_def preset_request_def training_presets_def)
  have e: "map_of (the (map_of training_presets ''thorough'')) ''num_leaves'' = Some (IntV 127)"
    by (simp add: training_presets_def)
  have f: "distinct (map fst (hyperparameters ?c2))"
    by (simp add: prepare_training_config_def override_request_def)
  have g: "hyperparameters ?c2 \<noteq> []"
    by (simp add: prepare_training_config_def override_request_def)
  have h: "map_of (hyperparameters ?c2) ''num_leaves'' = None"
    by (simp add: prepare_training_config_def override_request_def)
  have u1: "used_hyperparameter ?c1 ''num_leaves'' = Some (IntV 127)"
    using hyperparameter_selection [OF a b, of "the (map_of training_presets ''thorough'')"]
      c d e by simp
  have u2: "used_hyperparameter ?c2 ''num_leaves'' = None"
    using hyperparameter_selection [OF f b, of "the (map_of training_presets ''thorough'')"]
      g h by simp
  from a b c d u1 f g u2 show ?thesis by (intro conjI)
qed

subsection \<open>Feature normalizer\<close>

text \<open>
  C5, as the specification states it: on every raw input whose resolved fields are
  numeric, \<open>preprocess_features\<close> returns the fifteen bounded values and does not fail.
  This fails on the input with the integer credit score \<open>10^309\<close>: \<^verbatim>\<open>float\<close> raises
  \<^verbatim>\<open>OverflowError\<close> on it and \<open>preprocess_features\<close> raises its \<^verbatim>\<open>ValueError\<close>.
\<close>

theorem huge_integer_field_fails:
  "numeric_raw big_raw
   \<and> get_nested_value big_raw [''credit_score''] = PInt (10 ^ 309)
   \<and> preprocess_features example_env big_raw = Inl FeaturePreprocessingFailed"
proof -
  have a: "get_nested_value big_raw [''credit_score''] = PInt (10 ^ 309)"
    by (simp add: big_raw_def del: power_numeral)
  have "compute_features example_env big_raw = Inl OverflowError"
    unfolding compute_features_def big_raw_overflow and_then_def by simp
  then have b: "preprocess_features example_env big_raw = Inl FeaturePreprocessingFailed"
    by (simp add: preprocess_features_def)
  from big_raw_numeric a b show ?thesis by (intro conjI)
qed

text \<open>
  C5, amended. For every raw input whose resolved fields are numeric, an integer among
  them being of magnitude below \<open>2^1024 - 2^970\<close> so that \<^verbatim>\<open>float\<close> converts it (whatever
  subset of the fields is present), \<open>preprocess_features\<close> does not fail and returns fifteen
  values, the clamped features in the order of \<open>feature_names\<close>, each inside the bounds
  of its feature (so that \<open>validate_feature_vector\<close> accepts the vector); in particular
  the credit score lies in \<open>[300, 850]\<close> and the loan term in \<open>[12, 120]\<close>. Every value
  is a real number, hence finite. On any input at all, a result that is returned has
  fifteen values inside their bounds (\<open>preprocess_result_valid\<close>).
\<close>

theorem normalize_total_and_bounded:
  assumes "valid_raw raw"
  shows "\<exists>v fs. preprocess_features env raw = Inr v
          \<and> compute_features env raw = Inr fs
          \<and> map fst fs = feature_names
          \<and> v = map (\<lambda>(name, x). normalize_feature name x) fs
          \<and> length v = 15
          \<and> validate_feature_vector v
          \<and> 300 \<le> v ! 0 \<and> v ! 0 \<le> 850
          \<and> 12 \<le> v ! 13 \<and> v ! 13 \<le> 120"
proof -
  have sub: "set credit_score_paths \<subseteq> set direct_paths"
    "set employment_months_paths \<subseteq> set direct_paths"
    "set annual_income_paths \<subseteq> set direct_paths"
    "set credit_history_years_paths \<subseteq> set direct_paths"
    "set delinquencies_paths \<subseteq> set direct_paths"
    "set loan_amount_paths \<subseteq> set direct_paths"
    "set vehicle_value_paths \<subseteq> set direct_paths"
    "set credit_utilization_paths \<subseteq> set direct_paths"
    "set recent_inquiries_paths \<subseteq> set direct_paths"
    "set address_months_paths \<subseteq> set direct_paths"
    "set loan_term_months_paths \<subseteq> set direct_paths"
    unfolding direct_paths_def by auto
  note ok = valid_raw_paths [OF assms]
  obtain cs where cs: "extract_credit_score env raw = Inr cs"
    unfolding extract_credit_score_def using ok [OF sub(1)] by blast
  obtain em where em: "extract_employment_months env raw = Inr em"
    unfolding extract_employment_months_def using ok [OF sub(2)] by blast
  obtain ai where ai: "extract_annual_income env raw = Inr ai"
    unfolding extract_annual_income_def using ok [OF sub(3)] by blast
  obtain chy where chy: "extract_credit_history_years env raw = Inr chy"
    unfolding extract_credit_history_years_def using ok [OF sub(4)] by blast
  obtain dl where dl: "extract_delinquencies env raw = Inr dl"
    unfolding extract_delinquencies_def using ok [OF sub(5)] by blast
  obtain la where la: "extract_loan_amount env raw = Inr la"
    unfolding extract_loan_amount_def using ok [OF sub(6)] by blast
  obtain vv where vv: "extract_vehicle_value env raw = Inr vv"
    unfolding extract_vehicle_value_def using ok [OF sub(7)] by blast
  obtain cu where cu: "extract_credit_utilization env raw = Inr cu"
    unfolding extract_credit_utilization_def using ok [OF sub(8)] by blast
  obtain ri where ri: "extract_recent_inquiries env raw = Inr ri"
    unfolding extract_recent_inquiries_def using ok [OF sub(9)] by blast
  obtain am where am: "extract_address_months env raw = Inr am"
    unfolding extract_address_months_def using ok [OF sub(10)] by blast
  obtain lt where lt: "extract_loan_term_months env raw = Inr lt"
    unfolding extract_loan_term_months_def using ok [OF sub(11)] by blast
  let ?fs = "feature_dict env raw cs em ai chy dl la vv cu ri am lt"
  let ?v = "[max 300 (min 850 cs),
      max 0 (min 100 (calculate_debt_to_income_ratio env raw)),
      max 0 (min 150 (calculate_loan_to_value_ratio env raw)),
      max 0 (min 600 em),
      max 0 (min 1000000 ai),
      max 0 (min 50 (calculate_vehicle_age env raw)),
      max 0 (min 50 chy),
      max 0 (min 20 dl),
      max 1000 (min 200000 la),
      max 1000 (min 500000 vv),
      max 0 (min 100 cu),
      max 0 (min 20 ri),
      max 0 (min 600 am),
      max 12 (min 120 lt),
      max 18 (min 100 (calculate_applicant_age env raw))]"
  have c: "compute_features env raw = Inr ?fs"
    using cs em ai chy dl la vv cu ri am lt by (rule compute_features_ok)
  have p: "preprocess_features env raw = Inr ?v"
    unfolding preprocess_features_def c using normalized_feature_dict by simp
  have n: "map fst ?fs = feature_names"
    by (simp add: feature_dict_def feature_names_def)
  have m: "?v = map (\<lambda>(name, x). normalize_feature name x) ?fs"
    by (simp add: feature_dict_def normalize_feature_simps)
  have l: "length ?v = 15" by simp
  have val: "validate_feature_vector ?v" by (rule validate_clamped)
  have b: "300 \<le> ?v ! 0" "?v ! 0 \<le> 850" "12 \<le> ?v ! 13" "?v ! 13 \<le> 120"
    by simp_all
  have "preprocess_features env raw = Inr ?v
          \<and> compute_features env raw = Inr ?fs
          \<and> map fst ?fs = feature_names
          \<and> ?v = map (\<lambda>(name, x). normalize_feature name x) ?fs
          \<and> length ?v = 15
          \<and> validate_feature_vector ?v
          \<and> 300 \<le> ?v ! 0 \<and> ?v ! 0 \<le> 850
          \<and> 12 \<le> ?v ! 13 \<and> ?v ! 13 \<le> 120"
    using p c n m l val b by (intro conjI)
  then show ?thesis by (intro exI)
qed

theorem normalize_total_and_bounded_witness:
  "valid_raw example_raw
   \<and> preprocess_features example_env example_raw
       = Inr [850, 80, 80, 24, 60000, 4, 7, 1, 24000, 30000, 30, 1, 24, 12, 33]
   \<and> validate_feature_vector [850, 80, 80, 24, 60000, 4, 7, 1, 24000, 30000, 30, 1, 24, 12, 33]"
proof -
  from normalize_total_and_bounded [OF example_raw_valid, of example_env]
  obtain v where "preprocess_features example_env example_raw = Inr v"
    "validate_feature_vector v"
    by blast
  then have "validate_feature_vector
               [850, 80, 80, 24, 60000, 4, 7, 1, 24000, 30000, 30, 1, 24, 12, 33]"
    unfolding example_raw_normalized by simp
  with example_raw_valid example_raw_normalized show ?thesis by (intro conjI)
qed

text \<open>
  C2, as the specification states it: on an input that has a \<open>debt_to_income_ratio\<close>
  field the normalized component is the value of that field, and on an input with no
  income, loan-amount or loan-term data it is 35.0. Both fail on the input whose only
  field is \<open>debt_to_income_ratio = 20\<close>: the component is 10.
\<close>

theorem debt_to_income_field_not_read:
  "get_nested_value dti_raw [''debt_to_income_ratio''] = PFloat 20
   \<and> list_all (\<lambda>p. get_nested_value dti_raw p = PNone)
        (loan_amount_paths @ loan_term_months_paths @ annual_income_paths)
   \<and> preprocess_features example_env dti_raw
       = Inr [650, 10, 250 / 3, 24, 50000, 5, 7, 1, 25000, 30000, 30, 1, 24, 60, 35]
   \<and> projr (preprocess_features example_env dti_raw) ! 1 \<noteq> 20
   \<and> projr (preprocess_features example_env dti_raw) ! 1 \<noteq> 35"
proof -
  have a: "get_nested_value dti_raw [''debt_to_income_ratio''] = PFloat 20"
    by (simp add: dti_raw_def)
  have b: "list_all (\<lambda>p. get_nested_value dti_raw p = PNone)
        (loan_amount_paths @ loan_term_months_paths @ annual_income_paths)"
    by (simp add: dti_raw_def loan_amount_paths_def loan_term_months_paths_def
        annual_income_paths_def)
  have c: "projr (preprocess_features example_env dti_raw) ! 1 \<noteq> 20"
    "projr (preprocess_features example_env dti_raw) ! 1 \<noteq> 35"
    by (simp_all add: dti_raw_normalized)
  from a b dti_raw_normalized c show ?thesis by (intro conjI)
qed

text \<open>
  C2, amended. \<open>preprocess_features\<close> never reads a \<open>debt_to_income_ratio\<close> field: the
  result is the same with and without one. The component is computed from the loan
  amount, the loan term and the annual income as they are looked up or defaulted:
  \<open>min (((loan_amount / loan_term) / (annual_income / 12)) * 100) 100\<close>, or 35.0 when
  the income or the term is not positive, clamped to \<open>[0, 100]\<close>. On an input with no
  income, loan-amount or loan-term data it is 10.0, the ratio of the defaults 25000, 60
  and 50000.
\<close>

theorem debt_to_income_is_computed:
  assumes "preprocess_features env (PDict d) = Inr v"
  shows "preprocess_features env (PDict ((''debt_to_income_ratio'', x) # d)) = Inr v
       \<and> (\<exists>la lt ai. extract_loan_amount env (PDict d) = Inr la
             \<and> extract_loan_term_months env (PDict d) = Inr lt
             \<and> extract_annual_income env (PDict d) = Inr ai
             \<and> v ! 1 = max 0 (min 100
                  (if ai \<le> 0 \<or> lt \<le> 0 \<or> \<bar>ai / 12\<bar> \<le> 1 / 2 ^ 1075 then 35
                   else min (fl_div (fl_div la lt) (fl_div ai 12) * 100) 100))
             \<and> (1 / 2 ^ 1022 \<le> \<bar>la / lt\<bar> \<and> 1 / 2 ^ 1022 \<le> \<bar>ai / 12\<bar>
                  \<and> 1 / 2 ^ 1022 \<le> \<bar>(la / lt) / (ai / 12)\<bar>
                 \<longrightarrow> fl_div (fl_div la lt) (fl_div ai 12) = (la / lt) / (ai / 12)))
       \<and> (list_all (\<lambda>p. get_nested_value (PDict d) p = PNone)
             (loan_amount_paths @ loan_term_months_paths @ annual_income_paths)
            \<longrightarrow> v ! 1 = 10)"
proof -
  from nth_1_normalized [OF assms] obtain la lt ai
    where e: "extract_loan_amount env (PDict d) = Inr la"
      "extract_loan_term_months env (PDict d) = Inr lt"
      "extract_annual_income env (PDict d) = Inr ai"
    and v: "v ! 1 = max 0 (min 100 (calculate_debt_to_income_ratio env (PDict d)))"
    by blast
  have f: "v ! 1 = max 0 (min 100
                  (if ai \<le> 0 \<or> lt \<le> 0 \<or> \<bar>ai / 12\<bar> \<le> 1 / 2 ^ 1075 then 35
                   else min (fl_div (fl_div la lt) (fl_div ai 12) * 100) 100))"
    unfolding v dti_formula [OF e] ..
  have g: "fl_div (fl_div la lt) (fl_div ai 12) = (la / lt) / (ai / 12)"
    if h: "1 / 2 ^ 1022 \<le> \<bar>la / lt\<bar> \<and> 1 / 2 ^ 1022 \<le> \<bar>ai / 12\<bar>
            \<and> 1 / 2 ^ 1022 \<le> \<bar>(la / lt) / (ai / 12)\<bar>"
  proof -
    from h have q1: "fl_div la lt = la / lt" by (intro fl_div_normal) simp
    from h have q2: "fl_div ai 12 = ai / 12" by (intro fl_div_normal) simp
    from h have q3: "fl_div (la / lt) (ai / 12) = (la / lt) / (ai / 12)"
      by (intro fl_div_normal) simp
    show ?thesis unfolding q1 q2 by (rule q3)
  qed
  have a: "preprocess_features env (PDict ((''debt_to_income_ratio'', x) # d)) = Inr v"
    unfolding preprocess_ignores_dti by (rule assms)
  have n: "v ! 1 = 10"
    if h: "list_all (\<lambda>p. get_nested_value (PDict d) p = PNone)
             (loan_amount_paths @ loan_term_months_paths @ annual_income_paths)"
  proof -
    from h have "extract_loan_amount env (PDict d) = Inr 25000"
      "extract_loan_term_months env (PDict d) = Inr 60"
      "extract_annual_income env (PDict d) = Inr 50000"
      unfolding extract_loan_amount_def extract_loan_term_months_def extract_annual_income_def
      by (simp_all add: extract_first_none)
    with e have "la = 25000" "lt = 60" "ai = 50000" by simp_all
    then show ?thesis unfolding f by (simp add: fl_div_normal)
  qed
  have "\<exists>la lt ai. extract_loan_amount env (PDict d) = Inr la
             \<and> extract_loan_term_months env (PDict d) = Inr lt
             \<and> extract_annual_income env (PDict d) = Inr ai
             \<and> v ! 1 = max 0 (min 100
                  (if ai \<le> 0 \<or> lt \<le> 0 \<or> \<bar>ai / 12\<bar> \<le> 1 / 2 ^ 1075 then 35
                   else min (fl_div (fl_div la lt) (fl_div ai 12) * 100) 100))
             \<and> (1 / 2 ^ 1022 \<le> \<bar>la / lt\<bar> \<and> 1 / 2 ^ 1022 \<le> \<bar>ai / 12\<bar>
                  \<and> 1 / 2 ^ 1022 \<le> \<bar>(la / lt) / (ai / 12)\<bar>
                 \<longrightarrow> fl_div (fl_div la lt) (fl_div ai 12) = (la / lt) / (ai / 12))"
    using e f g by (intro exI conjI impI)
  with a n show ?thesis by (intro conjI impI)
qed

theorem debt_to_income_is_computed_witness:
  "preprocess_features example_env (PDict [])
     = Inr [650, 10, 250 / 3, 24, 50000, 5, 7, 1, 25000, 30000, 30, 1, 24, 60, 35]
   \<and> list_all (\<lambda>p. get_nested_value (PDict []) p = PNone)
        (loan_amount_paths @ loan_term_months_paths @ annual_income_paths)
   \<and> preprocess_features example_env (PDict [(''debt_to_income_ratio'', PFloat 20)])
     = Inr [650, 10, 250 / 3, 24, 50000, 5, 7, 1, 25000, 30000, 30, 1, 24, 60, 35]
   \<and> [650, 10, 250 / 3, 24, 50000, 5, 7, 1, 25000, 30000, 30, 1, 24, 60, 35] ! 1 = (10::real)
   \<and> preprocess_features example_env (PDict tiny_income_raw)
     = Inr [650, 35, 250 / 3, 24, 1 / 2 ^ 1074, 5, 7, 1, 25000, 30000, 30, 1, 24, 60, 35]
   \<and> preprocess_features example_env
        (PDict ((''debt_to_income_ratio'', PFloat 20) # tiny_income_raw))
     = Inr [650, 35, 250 / 3, 24, 1 / 2 ^ 1074, 5, 7, 1, 25000, 30000, 30, 1, 24, 60, 35]"
proof -
  let ?v = "[650, 10, 250 / 3, 24, 50000, 5, 7, 1, 25000, 30000, 30, 1, 24, 60, 35] :: real list"
  have a: "preprocess_features example_env (PDict []) = Inr ?v"
    using dti_raw_normalized
    unfolding dti_raw_def preprocess_ignores_dti .
  have b: "list_all (\<lambda>p. get_nested_value (PDict []) p = PNone)
        (loan_amount_paths @ loan_term_months_paths @ annual_income_paths)"
    by (simp add: loan_amount_paths_def loan_term_months_paths_def annual_income_paths_def)
  note t = debt_to_income_is_computed [OF a, of "PFloat 20"]
  have c: "preprocess_features example_env (PDict [(''debt_to_income_ratio'', PFloat 20)])
     = Inr ?v"
    using t by (rule conjunct1)
  have d: "?v ! 1 = 10"
    using t b by blast
  note u = debt_to_income_is_computed [OF tiny_income_normalized, of "PFloat 20"]
  have e: "preprocess_features example_env
        (PDict ((''debt_to_income_ratio'', PFloat 20) # tiny_income_raw))
     = Inr [650, 35, 250 / 3, 24, 1 / 2 ^ 1074, 5, 7, 1, 25000, 30000, 30, 1, 24, 60, 35]"
    using u by (rule conjunct1)
  from a b c d tiny_income_normalized e show ?thesis by (intro conjI)
qed

end
